theory Spec2Isabelle
  imports Main
begin

section \<open>Data model (scraper.py)\<close>

text \<open>
  A Python \<open>str\<close> is modelled as a \<open>string\<close>: one list element per character of the
  \<open>str\<close>, so that \<open>s[:100]\<close> is \<open>take 100 s\<close>. Python's unbounded \<open>int\<close> is \<open>int\<close>,
  and \<open>X | None\<close> is \<open>X option\<close>.

  \<^verbatim>\<open>
  @dataclass
  class TrendItem:
      source: str
      title: str
      url: str
      score: int | None = None
      description: str | None = None
  \<close>
\<close>

record TrendItem =
  source :: string
  title :: string
  url :: string
  score :: "int option"
  description :: "string option"

text \<open>
  Exceptions are values: the class of the exception and the text \<open>str(e)\<close> that the
  source's f-strings print. Only subclasses of \<open>Exception\<close> are listed.
\<close>

datatype exc_class =
  JSONDecodeError | TypeError | ValueError | ValidationError
  | KeyError | AttributeError | OtherError

datatype py_exception = PyExc exc_class string

fun exc_str :: "py_exception \<Rightarrow> string" where
  "exc_str (PyExc c msg) = msg"

fun exc_cls :: "py_exception \<Rightarrow> exc_class" where
  "exc_cls (PyExc c msg) = c"

text \<open>Truthiness of a \<open>str | None\<close>: \<open>None\<close> and the empty string are falsy.\<close>

fun truthy_str :: "string option \<Rightarrow> bool" where
  "truthy_str None = False"
| "truthy_str (Some s) = (s \<noteq> [])"

text \<open>Truthiness of an \<open>int | None\<close>: \<open>None\<close> and \<open>0\<close> are falsy.\<close>

fun truthy_int :: "int option \<Rightarrow> bool" where
  "truthy_int None = False"
| "truthy_int (Some n) = (n \<noteq> 0)"

text \<open>\<open>xs[:n]\<close> for a Python \<open>int\<close>: a negative bound counts from the end.\<close>

definition py_take :: "int \<Rightarrow> 'a list \<Rightarrow> 'a list" where
  "py_take n xs = (if 0 \<le> n then take (nat n) xs else take (length xs - nat (- n)) xs)"

text \<open>\<open>str(n)\<close> of an \<open>int\<close>, as an f-string prints it: decimal, with a sign when negative.\<close>

definition digit_char :: "nat \<Rightarrow> char" where
  "digit_char n = ''0123456789'' ! n"

fun str_nat :: "nat \<Rightarrow> string" where
  "str_nat n = (if n < 10 then [digit_char n] else str_nat (n div 10) @ [digit_char (n mod 10)])"

definition str_int :: "int \<Rightarrow> string" where
  "str_int i = (if i < 0 then CHR ''-'' # str_nat (nat (- i)) else str_nat (nat i))"

section \<open>The scraper classes and the orchestrator (scraper.py)\<close>

text \<open>
  The two subclasses of \<open>BaseScraper\<close>, their class attributes \<open>name\<close> and
  \<open>requires_sela\<close>, and the registry:
  \<^verbatim>\<open>
  AVAILABLE_SCRAPERS = {"twitter": TwitterScraper, "github": GitHubScraper}
  DEFAULT_SCRAPERS = ["twitter", "github"]
  \<close>
\<close>

datatype scraper_class = TwitterScraper | GitHubScraper

fun class_name :: "scraper_class \<Rightarrow> string" where
  "class_name TwitterScraper = ''Twitter/X''"
| "class_name GitHubScraper = ''GitHub''"

fun requires_sela :: "scraper_class \<Rightarrow> bool" where
  "requires_sela TwitterScraper = True"
| "requires_sela GitHubScraper = False"

definition AVAILABLE_SCRAPERS :: "(string \<times> scraper_class) list" where
  "AVAILABLE_SCRAPERS = [(''twitter'', TwitterScraper), (''github'', GitHubScraper)]"

definition DEFAULT_SCRAPERS :: "string list" where
  "DEFAULT_SCRAPERS = [''twitter'', ''github'']"

definition DEFAULT_QUERIES :: "string list" where
  "DEFAULT_QUERIES = [''AI agent'', ''developer tools'', ''tech meme'', ''viral app'']"

text \<open>
  A scraper instance: its class and the attributes its constructor sets
  (\<open>sela_api_key\<close>; for the Twitter scraper also \<open>search_queries\<close> and \<open>post_count\<close>).
\<close>

datatype scraper =
  TwitterInstance "string option" "string list" int
  | GitHubInstance "string option"

fun class_of :: "scraper \<Rightarrow> scraper_class" where
  "class_of (TwitterInstance k qs n) = TwitterScraper"
| "class_of (GitHubInstance k) = GitHubScraper"

fun sela_api_key :: "scraper \<Rightarrow> string option" where
  "sela_api_key (TwitterInstance k qs n) = k"
| "sela_api_key (GitHubInstance k) = k"

definition scraper_name :: "scraper \<Rightarrow> string" where
  "scraper_name s = class_name (class_of s)"

subsection \<open>TrendScraper.get_all_trends\<close>

text \<open>
  \<^verbatim>\<open>
  async def get_all_trends(self) -> list[TrendItem]:
      if not self._scrapers:
          print("Warning: No scrapers enabled")
          return []
      tasks = [scraper.fetch() for scraper in self._scrapers]
      results = await asyncio.gather(*tasks, return_exceptions=True)
      all_trends: list[TrendItem] = []
      for i, result in enumerate(results):
          if isinstance(result, list):
              all_trends.extend(result)
          elif isinstance(result, Exception):
              print(f"Error in {self._scrapers[i].name}: {result}")
      return all_trends
  \<close>
  \<open>asyncio.gather(..., return_exceptions=True)\<close> hands back one result per task, in the
  order of the tasks: the list a fetch returned, the exception it raised, or something
  that is neither (a \<open>BaseException\<close> that is no \<open>Exception\<close>, such as the
  \<open>CancelledError\<close> of a cancelled task), for which the loop takes no branch. The
  outcome of the \<open>i\<close>-th task is an input of the model; what is printed is returned
  as a list of lines beside the value.
\<close>

datatype gather_result =
  ResultList "TrendItem list"
  | ResultException py_exception
  | ResultOther

fun py_enumerate :: "nat \<Rightarrow> 'a list \<Rightarrow> (nat \<times> 'a) list" where
  "py_enumerate i [] = []"
| "py_enumerate i (x # xs) = (i, x) # py_enumerate (Suc i) xs"

fun collect_results ::
  "scraper list \<Rightarrow> (nat \<times> gather_result) list \<Rightarrow> string list \<times> TrendItem list
    \<Rightarrow> string list \<times> TrendItem list" where
  "collect_results scrapers [] (out, all_trends) = (out, all_trends)"
| "collect_results scrapers ((i, ResultList xs) # rs) (out, all_trends) =
     collect_results scrapers rs (out, all_trends @ xs)"
| "collect_results scrapers ((i, ResultException e) # rs) (out, all_trends) =
     collect_results scrapers rs
       (out @ [''Error in '' @ scraper_name (scrapers ! i) @ '': '' @ exc_str e], all_trends)"
| "collect_results scrapers ((i, ResultOther) # rs) (out, all_trends) =
     collect_results scrapers rs (out, all_trends)"

definition get_all_trends ::
  "scraper list \<Rightarrow> (nat \<Rightarrow> gather_result) \<Rightarrow> string list \<times> TrendItem list" where
  "get_all_trends scrapers outcome =
     (if scrapers = [] then ([''Warning: No scrapers enabled''], [])
      else
        let results = map outcome [0..<length scrapers]
        in collect_results scrapers (py_enumerate 0 results) ([], []))"

text \<open>What one gathered result adds to the returned list, and to the printed lines.\<close>

fun contribution :: "gather_result \<Rightarrow> TrendItem list" where
  "contribution (ResultList xs) = xs"
| "contribution (ResultException e) = []"
| "contribution ResultOther = []"

fun error_lines :: "string \<Rightarrow> gather_result \<Rightarrow> string list" where
  "error_lines nm (ResultList xs) = []"
| "error_lines nm (ResultException e) = [''Error in '' @ nm @ '': '' @ exc_str e]"
| "error_lines nm ResultOther = []"

subsection \<open>The constructors\<close>

text \<open>
  \<^verbatim>\<open>
  class TwitterScraper(BaseScraper):
      def __init__(self, client, sela_api_key=None, search_queries=None, post_count=5):
          super().__init__(client, sela_api_key)
          if search_queries is None:
              import os
              env_queries = os.getenv("TWITTER_QUERIES", "")
              if env_queries:
                  search_queries = [q.strip() for q in env_queries.split(",") if q.strip()]
          self.search_queries = search_queries or self.DEFAULT_QUERIES
          self.post_count = post_count
  \<close>
  The environment variable is an input (\<open>None\<close> when it is not set).
  \<open>str.isspace\<close> on the characters a \<open>char\<close> can hold: the codes 9 to 13, 28 to 32,
  133 and 160.
\<close>

definition py_isspace :: "char \<Rightarrow> bool" where
  "py_isspace c = ((of_char c :: nat) \<in> {9, 10, 11, 12, 13, 28, 29, 30, 31, 32, 133, 160})"

definition strip :: "string \<Rightarrow> string" where
  "strip s = rev (dropWhile py_isspace (rev (dropWhile py_isspace s)))"

fun split_on :: "char \<Rightarrow> string \<Rightarrow> string list" where
  "split_on sep [] = [[]]"
| "split_on sep (c # cs) =
     (if c = sep then [] # split_on sep cs
      else (case split_on sep cs of
              [] \<Rightarrow> [[c]]
            | w # ws \<Rightarrow> (c # w) # ws))"

definition TwitterScraper_init ::
  "string option \<Rightarrow> string list option \<Rightarrow> int \<Rightarrow> string option \<Rightarrow> scraper" where
  "TwitterScraper_init key search_queries post_count twitter_queries_env =
     (let search_queries1 =
            (case search_queries of
               Some qs \<Rightarrow> Some qs
             | None \<Rightarrow>
                 (let env_queries = (case twitter_queries_env of None \<Rightarrow> [] | Some s \<Rightarrow> s)
                  in if env_queries \<noteq> []
                     then Some (map strip
                                 (filter (\<lambda>q. strip q \<noteq> []) (split_on CHR '','' env_queries)))
                     else None))
      in TwitterInstance key
           (case search_queries1 of
              None \<Rightarrow> DEFAULT_QUERIES
            | Some [] \<Rightarrow> DEFAULT_QUERIES
            | Some (q # qs) \<Rightarrow> q # qs)
           post_count)"

text \<open>
  \<open>_init_scrapers\<close> calls \<open>scraper_class(client=..., sela_api_key=..., **config)\<close>. A
  configuration is a dictionary of keyword arguments, in the order of its keys:
  \<open>search_queries\<close>, \<open>post_count\<close>, or a keyword that no constructor takes, each key
  at most once. A keyword the constructor does not take raises \<open>TypeError\<close> (for the
  first such key); \<open>GitHubScraper\<close> inherits \<open>BaseScraper.__init__(client,
  sela_api_key)\<close> and takes none. The text of the exception is CPython's for an
  unexpected keyword (for \<open>client\<close> and \<open>sela_api_key\<close>, passed twice, CPython words it
  differently); no statement below depends on the text. The shared HTTP client is not
  part of the model.
\<close>

datatype kwarg = KwSearchQueries "string list option" | KwPostCount int | KwOther string

fun kwarg_name :: "kwarg \<Rightarrow> string" where
  "kwarg_name (KwSearchQueries qs) = ''search_queries''"
| "kwarg_name (KwPostCount n) = ''post_count''"
| "kwarg_name (KwOther k) = k"

definition unexpected_keyword :: "string \<Rightarrow> kwarg \<Rightarrow> py_exception" where
  "unexpected_keyword init k =
     PyExc TypeError (init @ '' got an unexpected keyword argument '' @
       [CHR 0x27] @ kwarg_name k @ [CHR 0x27])"

fun get_search_queries :: "kwarg list \<Rightarrow> string list option" where
  "get_search_queries [] = None"
| "get_search_queries (KwSearchQueries qs # ks) = qs"
| "get_search_queries (k # ks) = get_search_queries ks"

fun get_post_count :: "kwarg list \<Rightarrow> int" where
  "get_post_count [] = 5"
| "get_post_count (KwPostCount n # ks) = n"
| "get_post_count (k # ks) = get_post_count ks"

fun is_other :: "kwarg \<Rightarrow> bool" where
  "is_other (KwOther k) = True"
| "is_other k = False"

fun construct ::
  "scraper_class \<Rightarrow> string option \<Rightarrow> kwarg list \<Rightarrow> string option \<Rightarrow> py_exception + scraper" where
  "construct TwitterScraper key config twitter_queries_env =
     (case filter is_other config of
        k # ks \<Rightarrow> Inl (unexpected_keyword ''TwitterScraper.__init__()'' k)
      | [] \<Rightarrow>
          Inr (TwitterScraper_init key (get_search_queries config) (get_post_count config)
                twitter_queries_env))"
| "construct GitHubScraper key config twitter_queries_env =
     (case config of
        k # ks \<Rightarrow> Inl (unexpected_keyword ''BaseScraper.__init__()'' k)
      | [] \<Rightarrow> Inr (GitHubInstance key))"

subsection \<open>TrendScraper.__init__ and TrendScraper._init_scrapers\<close>

text \<open>
  \<^verbatim>\<open>
  def __init__(self, sela_api_key=None, enabled_scrapers=None, scraper_configs=None):
      self.sela_api_key = sela_api_key
      self.enabled_scrapers = enabled_scrapers or DEFAULT_SCRAPERS
      self.scraper_configs = scraper_configs or {}
      self.client = httpx.AsyncClient(timeout=30.0)
      self._scrapers: list[BaseScraper] = []
      self._init_scrapers()

  def _init_scrapers(self) -> None:
      for name in self.enabled_scrapers:
          if name not in AVAILABLE_SCRAPERS:
              print(f"Warning: Unknown scraper '{name}', skipping")
              continue
          scraper_class = AVAILABLE_SCRAPERS[name]
          if scraper_class.requires_sela and not self.sela_api_key:
              print(f"Warning: '{name}' requires Sela API key, skipping")
              continue
          config = self.scraper_configs.get(name, {})
          scraper = scraper_class(client=self.client, sela_api_key=self.sela_api_key, **config)
          self._scrapers.append(scraper)
  \<close>
  The loop carries the lines printed so far and \<open>self._scrapers\<close>; a constructor that
  raises ends it with the exception.
\<close>

definition warn_unknown :: "string \<Rightarrow> string" where
  "warn_unknown nm = ''Warning: Unknown scraper '' @ [CHR 0x27] @ nm @ [CHR 0x27] @ '', skipping''"

definition warn_requires_sela :: "string \<Rightarrow> string" where
  "warn_requires_sela nm =
     ''Warning: '' @ [CHR 0x27] @ nm @ [CHR 0x27] @ '' requires Sela API key, skipping''"

text \<open>\<open>self.scraper_configs.get(name, {})\<close>\<close>

definition config_get :: "(string \<times> kwarg list) list \<Rightarrow> string \<Rightarrow> kwarg list" where
  "config_get scraper_configs nm =
     (case map_of scraper_configs nm of None \<Rightarrow> [] | Some c \<Rightarrow> c)"

fun init_scrapers ::
  "string option \<Rightarrow> (string \<times> kwarg list) list \<Rightarrow> string option \<Rightarrow> string list
    \<Rightarrow> string list \<Rightarrow> scraper list \<Rightarrow> string list \<times> (py_exception + scraper list)" where
  "init_scrapers key scraper_configs env [] out scrapers = (out, Inr scrapers)"
| "init_scrapers key scraper_configs env (nm # names) out scrapers =
     (case map_of AVAILABLE_SCRAPERS nm of
        None \<Rightarrow>
          init_scrapers key scraper_configs env names (out @ [warn_unknown nm]) scrapers
      | Some scraper_class \<Rightarrow>
          if requires_sela scraper_class \<and> \<not> truthy_str key
          then init_scrapers key scraper_configs env names
                 (out @ [warn_requires_sela nm]) scrapers
          else
            (let config = config_get scraper_configs nm
             in case construct scraper_class key config env of
                  Inl e \<Rightarrow> (out, Inl e)
                | Inr scraper \<Rightarrow>
                    init_scrapers key scraper_configs env names out (scrapers @ [scraper])))"

text \<open>\<open>enabled_scrapers or DEFAULT_SCRAPERS\<close>: \<open>None\<close> and the empty list are falsy.\<close>

definition enabled_or_default :: "string list option \<Rightarrow> string list" where
  "enabled_or_default enabled_scrapers =
     (case enabled_scrapers of
        None \<Rightarrow> DEFAULT_SCRAPERS
      | Some [] \<Rightarrow> DEFAULT_SCRAPERS
      | Some (n # ns) \<Rightarrow> n # ns)"

text \<open>\<open>scraper_configs or {}\<close>\<close>

definition configs_or_empty ::
  "(string \<times> kwarg list) list option \<Rightarrow> (string \<times> kwarg list) list" where
  "configs_or_empty scraper_configs = (case scraper_configs of None \<Rightarrow> [] | Some c \<Rightarrow> c)"

definition TrendScraper_init ::
  "string option \<Rightarrow> string list option \<Rightarrow> (string \<times> kwarg list) list option \<Rightarrow> string option
    \<Rightarrow> string list \<times> (py_exception + scraper list)" where
  "TrendScraper_init key enabled_scrapers scraper_configs env =
     init_scrapers key (configs_or_empty scraper_configs) env
       (enabled_or_default enabled_scrapers) [] []"

text \<open>
  The words of the specification, for comparison: an identifier is kept when the
  registry knows it and its class needs no credential that is missing; every other
  identifier is skipped with its warning. The identifier a live scraper was built for
  is read back from its class.
\<close>

definition is_live :: "string option \<Rightarrow> string \<Rightarrow> bool" where
  "is_live key nm =
     (case map_of AVAILABLE_SCRAPERS nm of
        None \<Rightarrow> False
      | Some c \<Rightarrow> \<not> (requires_sela c \<and> \<not> truthy_str key))"

definition skip_warning :: "string option \<Rightarrow> string \<Rightarrow> string list" where
  "skip_warning key nm =
     (case map_of AVAILABLE_SCRAPERS nm of
        None \<Rightarrow> [warn_unknown nm]
      | Some c \<Rightarrow> if requires_sela c \<and> \<not> truthy_str key then [warn_requires_sela nm] else [])"

fun identifier_of :: "scraper \<Rightarrow> string" where
  "identifier_of (TwitterInstance k qs n) = ''twitter''"
| "identifier_of (GitHubInstance k) = ''github''"

section \<open>The sources (scraper.py)\<close>

text \<open>
  The responses of the two HTTP APIs are JSON objects. They are modelled with the keys
  the code reads (\<open>data.result[].{tweetUrl, content, likesCount, viewsCount}\<close> and
  \<open>items[].{full_name, language, html_url, stargazers_count, description}\<close>), each
  key absent, \<open>null\<close> or holding a value of the type that \<open>TrendItem\<close> declares for
  the field it fills. The two keys that fill \<open>url\<close>, a \<open>str\<close>, are absent or hold a
  string (\<open>tweetUrl\<close>, \<open>html_url\<close>).
\<close>

datatype 'a field = Absent | Null | Present 'a

text \<open>\<open>d.get(key)\<close>: the value, or \<open>None\<close> when the key is absent or \<open>null\<close>.\<close>

fun field_get :: "'a field \<Rightarrow> 'a option" where
  "field_get Absent = None"
| "field_get Null = None"
| "field_get (Present v) = Some v"

subsection \<open>BaseScraper._sela_scrape\<close>

text \<open>
  \<^verbatim>\<open>
  async def _sela_scrape(self, url, scrape_type, post_count=10, timeout_ms=60000) -> dict:
      if not self.sela_api_key:
          return {}
      resp = await self.client.post("https://api.selanetwork.io/api/rpc/scrapeUrl", ...)
      if resp.status_code != 200:
          print(f"[Sela API] {resp.status_code}: {resp.text}")
      return resp.json()
  \<close>
  The POST is an input of the model, a function of the URL and the post count (the
  rest of the request is constant): it raises, or it answers with a status code, a body
  text and what \<open>resp.json()\<close> makes of the body (an exception or the object).
\<close>

record tweet =
  tweetUrl :: "string option"
  content :: "string field"
  likesCount :: "int field"
  viewsCount :: "int field"

datatype sela_data = SelaData "tweet list field"

datatype sela_response = SelaResponse "sela_data field"

record http_reply =
  status_code :: int
  body_text :: string
  body_json :: "py_exception + sela_response"

definition sela_scrape ::
  "(string \<Rightarrow> int \<Rightarrow> py_exception + http_reply) \<Rightarrow> string option \<Rightarrow> string \<Rightarrow> int
    \<Rightarrow> string list \<times> (py_exception + sela_response)" where
  "sela_scrape post key target post_count =
     (if \<not> truthy_str key then ([], Inr (SelaResponse Absent))
      else
        (case post target post_count of
           Inl e \<Rightarrow> ([], Inl e)
         | Inr resp \<Rightarrow>
             ((if status_code resp \<noteq> 200
               then [''[Sela API] '' @ str_int (status_code resp) @ '': '' @ body_text resp]
               else []),
              body_json resp)))"

subsection \<open>TwitterScraper.fetch\<close>

text \<open>
  \<^verbatim>\<open>
  async def fetch(self) -> list[TrendItem]:
      if not self.sela_api_key:
          return []
      from urllib.parse import quote
      all_items: list[TrendItem] = []
      for query in self.search_queries:
          try:
              search_url = f"https://x.com/search?q={quote(query)}&f=top"
              data = await self._sela_scrape(url=search_url, scrape_type="TWITTER_PROFILE",
                                             post_count=self.post_count)
              posts = data.get("data", {}).get("result", [])
              for item in posts[:self.post_count]:
                  tweet_url = item.get("tweetUrl", "")
                  if tweet_url and not tweet_url.startswith("http"):
                      tweet_url = f"https://x.com{tweet_url}"
                  all_items.append(
                      TrendItem(
                          source=f"{self.name} ({query})",
                          title=item.get("content", "")[:100],
                          url=tweet_url,
                          score=item.get("likesCount") or item.get("viewsCount"),
                          description=item.get("content"),
                      )
                  )
          except Exception as e:
              print(f"[{self.name}] Error searching '{query}': {e}")
      return all_items
  \<close>
\<close>

definition startswith :: "string \<Rightarrow> string \<Rightarrow> bool" where
  "startswith s p = (take (length p) s = p)"

text \<open>\<open>None[:100]\<close> and \<open>None.get(...)\<close>, with the texts CPython gives them.\<close>

definition not_subscriptable :: py_exception where
  "not_subscriptable =
     PyExc TypeError ([CHR 0x27] @ ''NoneType'' @ [CHR 0x27] @ '' object is not subscriptable'')"

definition none_has_no_get :: py_exception where
  "none_has_no_get =
     PyExc AttributeError
       ([CHR 0x27] @ ''NoneType'' @ [CHR 0x27] @ '' object has no attribute '' @
        [CHR 0x27] @ ''get'' @ [CHR 0x27])"

text \<open>The body of the inner loop up to the \<open>TrendItem\<close> it appends.\<close>

definition normalize_url :: "string \<Rightarrow> string" where
  "normalize_url tweet_url =
     (if tweet_url \<noteq> [] \<and> \<not> startswith tweet_url ''http''
      then ''https://x.com'' @ tweet_url else tweet_url)"

definition likes_or_views :: "tweet \<Rightarrow> int option" where
  "likes_or_views item =
     (if truthy_int (field_get (likesCount item)) then field_get (likesCount item)
      else field_get (viewsCount item))"

text \<open>\<open>item.get("content", "")[:100]\<close>: the default only stands in for an absent key.\<close>

definition content_slice :: "tweet \<Rightarrow> py_exception + string" where
  "content_slice item =
     (case content item of
        Absent \<Rightarrow> Inr (take 100 [])
      | Null \<Rightarrow> Inl not_subscriptable
      | Present text \<Rightarrow> Inr (take 100 text))"

definition tweet_item :: "string \<Rightarrow> tweet \<Rightarrow> py_exception + TrendItem" where
  "tweet_item query item =
     (let tweet_url = normalize_url (case tweetUrl item of None \<Rightarrow> [] | Some u \<Rightarrow> u)
      in case content_slice item of
           Inl e \<Rightarrow> Inl e
         | Inr ttl \<Rightarrow>
             Inr \<lparr>source = class_name TwitterScraper @ '' ('' @ query @ '')'',
                  title = ttl,
                  url = tweet_url,
                  score = likes_or_views item,
                  description = field_get (content item)\<rparr>)"

text \<open>The inner loop: it appends to \<open>all_items\<close> until an item raises.\<close>

fun append_items ::
  "string \<Rightarrow> tweet list \<Rightarrow> TrendItem list \<Rightarrow> py_exception option \<times> TrendItem list" where
  "append_items query [] all_items = (None, all_items)"
| "append_items query (item # posts) all_items =
     (case tweet_item query item of
        Inl e \<Rightarrow> (Some e, all_items)
      | Inr t \<Rightarrow> append_items query posts (all_items @ [t]))"

text \<open>\<open>data.get("data", {}).get("result", [])\<close>: a list, or \<open>None\<close> for a \<open>null\<close> result.\<close>

fun get_posts :: "sela_response \<Rightarrow> py_exception + tweet list option" where
  "get_posts (SelaResponse Absent) = Inr (Some [])"
| "get_posts (SelaResponse Null) = Inl none_has_no_get"
| "get_posts (SelaResponse (Present (SelaData Absent))) = Inr (Some [])"
| "get_posts (SelaResponse (Present (SelaData Null))) = Inr None"
| "get_posts (SelaResponse (Present (SelaData (Present posts)))) = Inr (Some posts)"

definition search_error :: "string \<Rightarrow> py_exception \<Rightarrow> string" where
  "search_error query e =
     ''['' @ class_name TwitterScraper @ ''] Error searching '' @
     [CHR 0x27] @ query @ [CHR 0x27] @ '': '' @ exc_str e"

text \<open>
  One turn of the outer loop, the \<open>try\<close> with its \<open>except\<close>: the lines printed and
  \<open>all_items\<close> after it. \<open>quote\<close> is \<open>urllib.parse.quote\<close>.
\<close>

definition search_url :: "(string \<Rightarrow> string) \<Rightarrow> string \<Rightarrow> string" where
  "search_url quote query = ''https://x.com/search?q='' @ quote query @ ''&f=top''"

definition fetch_query ::
  "(string \<Rightarrow> string) \<Rightarrow> (string \<Rightarrow> int \<Rightarrow> py_exception + http_reply) \<Rightarrow> string option \<Rightarrow> int
    \<Rightarrow> string \<Rightarrow> TrendItem list \<Rightarrow> string list \<times> TrendItem list" where
  "fetch_query quote post key post_count query all_items =
     (let target = search_url quote query
      in case sela_scrape post key target post_count of
           (out, Inl e) \<Rightarrow> (out @ [search_error query e], all_items)
         | (out, Inr data) \<Rightarrow>
             (case get_posts data of
                Inl e \<Rightarrow> (out @ [search_error query e], all_items)
              | Inr None \<Rightarrow> (out @ [search_error query not_subscriptable], all_items)
              | Inr (Some posts) \<Rightarrow>
                  (case append_items query (py_take post_count posts) all_items of
                     (Some e, all_items1) \<Rightarrow> (out @ [search_error query e], all_items1)
                   | (None, all_items1) \<Rightarrow> (out, all_items1))))"

text \<open>
  The outer loop. The POST of the \<open>i\<close>-th query is \<open>post i\<close>: two queries with the
  same text may be answered differently.
\<close>

fun fetch_queries ::
  "(string \<Rightarrow> string) \<Rightarrow> (nat \<Rightarrow> string \<Rightarrow> int \<Rightarrow> py_exception + http_reply) \<Rightarrow> string option
    \<Rightarrow> int \<Rightarrow> nat \<Rightarrow> string list \<Rightarrow> string list \<times> TrendItem list
    \<Rightarrow> string list \<times> TrendItem list" where
  "fetch_queries quote post key post_count i [] (out, all_items) = (out, all_items)"
| "fetch_queries quote post key post_count i (query # queries) (out, all_items) =
     (case fetch_query quote (post i) key post_count query all_items of
        (out1, all_items1) \<Rightarrow>
          fetch_queries quote post key post_count (Suc i) queries (out @ out1, all_items1))"

definition twitter_fetch ::
  "(string \<Rightarrow> string) \<Rightarrow> (nat \<Rightarrow> string \<Rightarrow> int \<Rightarrow> py_exception + http_reply)
    \<Rightarrow> string option \<Rightarrow> string list \<Rightarrow> int \<Rightarrow> string list \<times> TrendItem list" where
  "twitter_fetch quote post key search_queries post_count =
     (if \<not> truthy_str key then ([], [])
      else fetch_queries quote post key post_count 0 search_queries ([], []))"

text \<open>
  For the statements about \<open>fetch\<close>: the posts the inner loop of one query runs over
  (none when the request, the decoding or the path to \<open>result\<close> raised), whether a post
  maps without an exception, and the \<open>TrendItem\<close> a post maps to.
\<close>

definition posts_of ::
  "(string \<Rightarrow> int \<Rightarrow> py_exception + http_reply) \<Rightarrow> string option \<Rightarrow> string \<Rightarrow> int \<Rightarrow> tweet list" where
  "posts_of post key target post_count =
     (case snd (sela_scrape post key target post_count) of
        Inl e \<Rightarrow> []
      | Inr data \<Rightarrow>
          (case get_posts data of
             Inl e \<Rightarrow> []
           | Inr None \<Rightarrow> []
           | Inr (Some posts) \<Rightarrow> py_take post_count posts))"

definition maps_ok :: "tweet \<Rightarrow> bool" where
  "maps_ok item = (content item \<noteq> Null)"

text \<open>
  The exception that the \<open>try\<close> of one query catches, if any, and the lines that the
  query prints: those of \<open>_sela_scrape\<close>, then the line of the \<open>except\<close> branch.
\<close>

definition query_error ::
  "(string \<Rightarrow> int \<Rightarrow> py_exception + http_reply) \<Rightarrow> string option \<Rightarrow> string \<Rightarrow> int
    \<Rightarrow> py_exception option" where
  "query_error post key target post_count =
     (case snd (sela_scrape post key target post_count) of
        Inl e \<Rightarrow> Some e
      | Inr data \<Rightarrow>
          (case get_posts data of
             Inl e \<Rightarrow> Some e
           | Inr None \<Rightarrow> Some not_subscriptable
           | Inr (Some posts) \<Rightarrow>
               if list_all maps_ok (py_take post_count posts) then None
               else Some not_subscriptable))"

definition query_lines ::
  "(string \<Rightarrow> string) \<Rightarrow> (string \<Rightarrow> int \<Rightarrow> py_exception + http_reply) \<Rightarrow> string option \<Rightarrow> int
    \<Rightarrow> string \<Rightarrow> string list" where
  "query_lines quote post key post_count query =
     fst (sela_scrape post key (search_url quote query) post_count) @
     (case query_error post key (search_url quote query) post_count of
        None \<Rightarrow> []
      | Some e \<Rightarrow> [search_error query e])"

definition mapped_item :: "string \<Rightarrow> tweet \<Rightarrow> TrendItem" where
  "mapped_item query item =
     \<lparr>source = ''Twitter/X ('' @ query @ '')'',
      title = take 100 (case field_get (content item) of None \<Rightarrow> [] | Some text \<Rightarrow> text),
      url = normalize_url (case tweetUrl item of None \<Rightarrow> [] | Some u \<Rightarrow> u),
      score = likes_or_views item,
      description = field_get (content item)\<rparr>"

subsection \<open>GitHubScraper.fetch\<close>

text \<open>
  \<^verbatim>\<open>
  async def fetch(self) -> list[TrendItem]:
      try:
          yesterday = (datetime.now() - timedelta(days=1)).strftime("%Y-%m-%d")
          resp = await self.client.get("https://api.github.com/search/repositories", ...)
          data = resp.json()
          return [
              TrendItem(
                  source=self.name,
                  title=f"{repo['full_name']} - {repo['language'] or 'Unknown'}",
                  url=repo["html_url"],
                  score=repo["stargazers_count"],
                  description=repo.get("description"),
              )
              for repo in data.get("items", [])[:10]
          ]
      except Exception as e:
          print(f"[{self.name}] Error: {e}")
          return []
  \<close>
  The GET followed by \<open>resp.json()\<close> is an input of the model: an exception or the
  object. \<open>repo[key]\<close> raises \<open>KeyError\<close> for an absent key; an f-string prints
  \<open>None\<close> as the text \<open>None\<close>.
\<close>

record repo =
  full_name :: "string field"
  language :: "string field"
  html_url :: "string option"
  stargazers_count :: "int field"
  repo_description :: "string field"

datatype github_response = GitHubResponse "repo list field"

definition key_error :: "string \<Rightarrow> py_exception" where
  "key_error k = PyExc KeyError ([CHR 0x27] @ k @ [CHR 0x27])"

definition language_or_unknown :: "string field \<Rightarrow> string" where
  "language_or_unknown l =
     (case field_get l of
        None \<Rightarrow> ''Unknown''
      | Some s \<Rightarrow> if s \<noteq> [] then s else ''Unknown'')"

definition repo_item :: "repo \<Rightarrow> py_exception + TrendItem" where
  "repo_item r =
     (case full_name r of
        Absent \<Rightarrow> Inl (key_error ''full_name'')
      | fn \<Rightarrow>
          (case language r of
             Absent \<Rightarrow> Inl (key_error ''language'')
           | lang \<Rightarrow>
               (case html_url r of
                  None \<Rightarrow> Inl (key_error ''html_url'')
                | Some u \<Rightarrow>
                    (case stargazers_count r of
                       Absent \<Rightarrow> Inl (key_error ''stargazers_count'')
                     | stars \<Rightarrow>
                         Inr \<lparr>source = class_name GitHubScraper,
                              title = (case field_get fn of None \<Rightarrow> ''None'' | Some s \<Rightarrow> s)
                                      @ '' - '' @ language_or_unknown lang,
                              url = u,
                              score = field_get stars,
                              description = field_get (repo_description r)\<rparr>))))"

text \<open>The list comprehension: the first item that raises ends it.\<close>

fun repo_items :: "repo list \<Rightarrow> py_exception + TrendItem list" where
  "repo_items [] = Inr []"
| "repo_items (r # rs) =
     (case repo_item r of
        Inl e \<Rightarrow> Inl e
      | Inr t \<Rightarrow> (case repo_items rs of Inl e \<Rightarrow> Inl e | Inr ts \<Rightarrow> Inr (t # ts)))"

definition github_error :: "py_exception \<Rightarrow> string" where
  "github_error e = ''['' @ class_name GitHubScraper @ ''] Error: '' @ exc_str e"

definition github_fetch ::
  "py_exception + github_response \<Rightarrow> string list \<times> TrendItem list" where
  "github_fetch reply =
     (case reply of
        Inl e \<Rightarrow> ([github_error e], [])
      | Inr (GitHubResponse Absent) \<Rightarrow> ([], [])
      | Inr (GitHubResponse Null) \<Rightarrow> ([github_error not_subscriptable], [])
      | Inr (GitHubResponse (Present repos)) \<Rightarrow>
          (case repo_items (take 10 repos) of
             Inl e \<Rightarrow> ([github_error e], [])
           | Inr items \<Rightarrow> ([], items)))"

text \<open>
  For the statements about \<open>fetch\<close>: whether a result carries the four keys that the
  comprehension subscripts, the key whose subscript raises first when it does not, and
  the \<open>TrendItem\<close> that a result with the four keys maps to.
\<close>

definition has_keys :: "repo \<Rightarrow> bool" where
  "has_keys r =
     (full_name r \<noteq> Absent \<and> language r \<noteq> Absent \<and> html_url r \<noteq> None
      \<and> stargazers_count r \<noteq> Absent)"

definition missing_key :: "repo \<Rightarrow> string" where
  "missing_key r =
     (if full_name r = Absent then ''full_name''
      else if language r = Absent then ''language''
      else if html_url r = None then ''html_url''
      else ''stargazers_count'')"

definition mapped_repo :: "repo \<Rightarrow> TrendItem" where
  "mapped_repo r =
     \<lparr>source = ''GitHub'',
      title = (case field_get (full_name r) of None \<Rightarrow> ''None'' | Some s \<Rightarrow> s)
              @ '' - '' @ language_or_unknown (language r),
      url = (case html_url r of None \<Rightarrow> [] | Some u \<Rightarrow> u),
      score = field_get (stargazers_count r),
      description = field_get (repo_description r)\<rparr>"

section \<open>The analyzer (analyzer.py)\<close>

text \<open>
  \<^verbatim>\<open>
  class IdeaSuggestion(BaseModel):
      title: str
      description: str
      why_now: str
      difficulty: str
      tech_stack: list[str]
      first_step: str

  class AnalysisResult(BaseModel):
      trend_summary: str
      ideas: list[IdeaSuggestion]
  \<close>
  (\<open>title\<close> and \<open>description\<close> are fields of \<open>TrendItem\<close> already; the fields of an
  idea carry the prefix \<open>idea_\<close>.)
\<close>

record IdeaSuggestion =
  idea_title :: string
  idea_description :: string
  why_now :: string
  difficulty :: string
  tech_stack :: "string list"
  first_step :: string

record AnalysisResult =
  trend_summary :: string
  ideas :: "IdeaSuggestion list"

subsection \<open>TrendAnalyzer._format_trends\<close>

text \<open>
  \<^verbatim>\<open>
  def _format_trends(self, trends: list[TrendItem]) -> str:
      grouped: dict[str, list[TrendItem]] = {}
      for trend in trends:
          if trend.source not in grouped:
              grouped[trend.source] = []
          grouped[trend.source].append(trend)
      lines = []
      for source, items in grouped.items():
          lines.append(f"### {source}")
          for item in items[:10]:  # Limit per source
              score_str = f" (score: {item.score})" if item.score else ""
              desc_str = f"\n   {item.description[:100]}..." if item.description else ""
              lines.append(f"- {item.title}{score_str}{desc_str}")
          lines.append("")
      return "\n".join(lines)
  \<close>
  A \<open>dict\<close> keeps its keys in the order of their insertion: \<open>grouped\<close> is an
  association list with distinct keys, a new key going to its end.
\<close>

fun dict_append :: "string \<Rightarrow> TrendItem \<Rightarrow> (string \<times> TrendItem list) list
    \<Rightarrow> (string \<times> TrendItem list) list" where
  "dict_append k t [] = []"
| "dict_append k t ((k', v) # g) =
     (if k' = k then (k', v @ [t]) # g else (k', v) # dict_append k t g)"

definition group_step ::
  "(string \<times> TrendItem list) list \<Rightarrow> TrendItem \<Rightarrow> (string \<times> TrendItem list) list" where
  "group_step grouped trend =
     (let grouped1 = (if map_of grouped (source trend) = None
                      then grouped @ [(source trend, [])] else grouped)
      in dict_append (source trend) trend grouped1)"

definition score_str :: "TrendItem \<Rightarrow> string" where
  "score_str item =
     (case score item of
        None \<Rightarrow> []
      | Some n \<Rightarrow> if n \<noteq> 0 then '' (score: '' @ str_int n @ '')'' else [])"

definition desc_str :: "TrendItem \<Rightarrow> string" where
  "desc_str item =
     (case description item of
        None \<Rightarrow> []
      | Some d \<Rightarrow> if d \<noteq> [] then [CHR 0x0A] @ ''   '' @ take 100 d @ ''...'' else [])"

definition item_line :: "TrendItem \<Rightarrow> string" where
  "item_line item = ''- '' @ title item @ score_str item @ desc_str item"

definition source_lines :: "string \<times> TrendItem list \<Rightarrow> string list" where
  "source_lines entry =
     (case entry of (src, items) \<Rightarrow> [''### '' @ src] @ map item_line (take 10 items) @ [[]])"

text \<open>\<open>sep.join(lines)\<close>\<close>

fun join :: "string \<Rightarrow> string list \<Rightarrow> string" where
  "join sep [] = []"
| "join sep [l] = l"
| "join sep (l # l' # ls) = l @ sep @ join sep (l' # ls)"

definition format_trends :: "TrendItem list \<Rightarrow> string" where
  "format_trends trends =
     (let grouped = foldl group_step [] trends;
          lines = concat (map source_lines grouped)
      in join [CHR 0x0A] lines)"

text \<open>
  The words of the specification, for comparison: the source labels in the order of
  their first appearance, and for each label a heading, then the lines of the first 10
  items that carry it, in their order, then an empty line.
\<close>

fun first_appearances :: "'a list \<Rightarrow> 'a list" where
  "first_appearances [] = []"
| "first_appearances (x # xs) = x # first_appearances (filter (\<lambda>y. y \<noteq> x) xs)"

definition digest_lines :: "TrendItem list \<Rightarrow> string list" where
  "digest_lines trends =
     concat (map (\<lambda>src. [''### '' @ src]
                         @ map item_line (take 10 (filter (\<lambda>t. source t = src) trends))
                         @ [[]])
                 (first_appearances (map source trends)))"

text \<open>The dictionary \<open>grouped\<close> that these words describe.\<close>

definition groups_of :: "TrendItem list \<Rightarrow> (string \<times> TrendItem list) list" where
  "groups_of trends =
     map (\<lambda>src. (src, filter (\<lambda>t. source t = src) trends))
       (first_appearances (map source trends))"

subsection \<open>The parse step of TrendAnalyzer.analyze_and_generate\<close>

text \<open>
  \<^verbatim>\<open>
  try:
      data = json.loads(response.text)
      return AnalysisResult(**data)
  except (json.JSONDecodeError, TypeError) as e:
      raise ValueError(f"Failed to parse Gemini response: {e}\nResponse: {response.text}")
  \<close>
  What \<open>json.loads\<close> returns is a JSON value; an object is the list of its members,
  with distinct keys. A float is kept as its literal.
\<close>

datatype json =
  JNull | JBool bool | JInt int | JFloat string | JStr string
  | JArr "json list" | JObj "(string \<times> json) list"

text \<open>
  \<open>json.loads\<close> is an input of the model: applied to a text it gives the value, or the
  message of the \<open>JSONDecodeError\<close> it raises. \<open>response.text\<close> is a \<open>str\<close> or \<open>None\<close>,
  and \<open>json.loads(None)\<close> raises \<open>TypeError\<close>.
\<close>

definition json_loads :: "(string \<Rightarrow> string + json) \<Rightarrow> string option \<Rightarrow> py_exception + json" where
  "json_loads loads text =
     (case text of
        None \<Rightarrow>
          Inl (PyExc TypeError
                ''the JSON object must be str, bytes or bytearray, not NoneType'')
      | Some s \<Rightarrow>
          (case loads s of
             Inl msg \<Rightarrow> Inl (PyExc JSONDecodeError msg)
           | Inr data \<Rightarrow> Inr data))"

text \<open>
  The validation that pydantic (version 2, which the \<open>google-genai\<close> client requires)
  runs in the constructor of a model, on values that come from \<open>json.loads\<close>: a \<open>str\<close>
  field takes a string, a \<open>list[...]\<close> field an array whose elements validate, a model
  field an object; every declared field is required, and other members are ignored.
  \<open>None\<close> stands for a failed validation.
\<close>

fun as_str :: "json \<Rightarrow> string option" where
  "as_str (JStr s) = Some s"
| "as_str j = None"

fun as_str_list :: "json \<Rightarrow> string list option" where
  "as_str_list (JArr xs) = those (map as_str xs)"
| "as_str_list j = None"

fun validate_idea :: "json \<Rightarrow> IdeaSuggestion option" where
  "validate_idea (JObj members) =
     (case Option.bind (map_of members ''title'') as_str of None \<Rightarrow> None | Some f1 \<Rightarrow>
      case Option.bind (map_of members ''description'') as_str of None \<Rightarrow> None | Some f2 \<Rightarrow>
      case Option.bind (map_of members ''why_now'') as_str of None \<Rightarrow> None | Some f3 \<Rightarrow>
      case Option.bind (map_of members ''difficulty'') as_str of None \<Rightarrow> None | Some f4 \<Rightarrow>
      case Option.bind (map_of members ''tech_stack'') as_str_list of None \<Rightarrow> None | Some f5 \<Rightarrow>
      case Option.bind (map_of members ''first_step'') as_str of None \<Rightarrow> None | Some f6 \<Rightarrow>
        Some \<lparr>idea_title = f1, idea_description = f2, why_now = f3, difficulty = f4,
              tech_stack = f5, first_step = f6\<rparr>)"
| "validate_idea j = None"

fun validate_ideas :: "json \<Rightarrow> IdeaSuggestion list option" where
  "validate_ideas (JArr xs) = those (map validate_idea xs)"
| "validate_ideas j = None"

fun validate_result :: "(string \<times> json) list \<Rightarrow> AnalysisResult option" where
  "validate_result members =
     (case Option.bind (map_of members ''trend_summary'') as_str of None \<Rightarrow> None | Some s \<Rightarrow>
      case Option.bind (map_of members ''ideas'') validate_ideas of None \<Rightarrow> None | Some xs \<Rightarrow>
        Some \<lparr>trend_summary = s, ideas = xs\<rparr>)"

text \<open>
  \<open>AnalysisResult(**data)\<close>: \<open>**\<close> on a value that is no object raises \<open>TypeError\<close>; a
  failed validation raises pydantic's \<open>ValidationError\<close>, a subclass of \<open>ValueError\<close>.
  The texts of these two exceptions are an input (\<open>describe\<close>).
\<close>

fun AnalysisResult_init :: "(json \<Rightarrow> string) \<Rightarrow> json \<Rightarrow> py_exception + AnalysisResult" where
  "AnalysisResult_init describe (JObj members) =
     (case validate_result members of
        None \<Rightarrow> Inl (PyExc ValidationError (describe (JObj members)))
      | Some r \<Rightarrow> Inr r)"
| "AnalysisResult_init describe data = Inl (PyExc TypeError (describe data))"

text \<open>
  \<open>except (json.JSONDecodeError, TypeError)\<close>: of the classes of \<open>exc_class\<close> only these
  two are instances of one of the two (\<open>ValidationError\<close> and \<open>ValueError\<close> are not).
\<close>

definition caught :: "py_exception \<Rightarrow> bool" where
  "caught e = (exc_cls e = JSONDecodeError \<or> exc_cls e = TypeError)"

definition parse_failure :: "py_exception \<Rightarrow> string option \<Rightarrow> py_exception" where
  "parse_failure e text =
     PyExc ValueError
       (''Failed to parse Gemini response: '' @ exc_str e @ [CHR 0x0A] @ ''Response: '' @
        (case text of None \<Rightarrow> ''None'' | Some s \<Rightarrow> s))"

definition parse_response ::
  "(string \<Rightarrow> string + json) \<Rightarrow> (json \<Rightarrow> string) \<Rightarrow> string option
    \<Rightarrow> py_exception + AnalysisResult" where
  "parse_response loads describe text =
     (case (case json_loads loads text of
              Inl e \<Rightarrow> Inl e
            | Inr data \<Rightarrow> AnalysisResult_init describe data) of
        Inl e \<Rightarrow> if caught e then Inl (parse_failure e text) else Inl e
      | Inr r \<Rightarrow> Inr r)"

subsection \<open>TrendAnalyzer.analyze_and_generate\<close>

text \<open>
  The prompt is constant text around the topic and the digest of \<open>_format_trends\<close>;
  the call of the model on it is an input (\<open>generate_content\<close>, a function of the
  digest): it raises, or it answers with \<open>response.text\<close>.
\<close>

definition analyze_and_generate ::
  "(string \<Rightarrow> py_exception + string option) \<Rightarrow> (string \<Rightarrow> string + json) \<Rightarrow> (json \<Rightarrow> string)
    \<Rightarrow> TrendItem list \<Rightarrow> py_exception + AnalysisResult" where
  "analyze_and_generate generate_content loads describe trends =
     (let trends_text = format_trends trends
      in case generate_content trends_text of
           Inl e \<Rightarrow> Inl e
         | Inr text \<Rightarrow> parse_response loads describe text)"

section \<open>The service (main.py)\<close>

text \<open>
  \<^verbatim>\<open>
  async def _generate_and_send_ideas(self, chat_id: int | str) -> None:
      logger.info("Starting trend collection...")
      trends = await self.scraper.get_all_trends()
      logger.info(f"Collected {len(trends)} trend items")
      if not trends:
          await self.bot.send_error(chat_id, <notice>)
          return
      logger.info("Analyzing trends and generating ideas...")
      result = await self.analyzer.analyze_and_generate(trends)
      await self.bot.send_ideas(chat_id, result)
      logger.info("Ideas sent successfully")
  \<close>
  The function is modelled by the list of what it does, in order, and the exception it
  ends with, if any. The analyzer and the bot are inputs: \<open>analyze\<close> is
  \<open>self.analyzer.analyze_and_generate\<close>, and \<open>send\<close> tells whether a call of the bot
  raises. The notice is Korean text, outside the characters of \<open>char\<close>: it is written
  as its UTF-8 bytes.
\<close>

datatype 'c bot_call = SendError 'c string | SendIdeas 'c AnalysisResult

datatype 'c action =
  LogInfo string
  | Print string
  | Analyze "TrendItem list"
  | Bot "'c bot_call"

definition NOTHING_COLLECTED :: string where
  "NOTHING_COLLECTED =
     map char_of
       [237, 138, 184, 235, 160, 140, 235, 147, 156, 235, 165, 188, 32, 236, 136, 152,
        236, 167, 145, 237, 149, 152, 236, 167, 128, 32, 235, 170, 187, 237, 150, 136,
        236, 138, 181, 235, 139, 136, 235, 139, 164, 46 :: nat]"

definition generate_and_send_ideas ::
  "scraper list \<Rightarrow> (nat \<Rightarrow> gather_result) \<Rightarrow> (TrendItem list \<Rightarrow> py_exception + AnalysisResult)
    \<Rightarrow> ('c bot_call \<Rightarrow> py_exception option) \<Rightarrow> 'c \<Rightarrow> 'c action list \<times> py_exception option" where
  "generate_and_send_ideas scrapers outcome analyze send chat_id =
     (case get_all_trends scrapers outcome of
        (printed, trends) \<Rightarrow>
          (let pre = [LogInfo ''Starting trend collection...''] @ map Print printed @
                     [LogInfo (''Collected '' @ str_nat (length trends) @ '' trend items'')]
           in if trends = []
              then (pre @ [Bot (SendError chat_id NOTHING_COLLECTED)],
                    send (SendError chat_id NOTHING_COLLECTED))
              else
                (let pre1 = pre @ [LogInfo ''Analyzing trends and generating ideas...'',
                                   Analyze trends]
                 in case analyze trends of
                      Inl e \<Rightarrow> (pre1, Some e)
                    | Inr result \<Rightarrow>
                        (case send (SendIdeas chat_id result) of
                           Some e \<Rightarrow> (pre1 @ [Bot (SendIdeas chat_id result)], Some e)
                         | None \<Rightarrow>
                             (pre1 @ [Bot (SendIdeas chat_id result),
                                      LogInfo ''Ideas sent successfully''], None)))))"

section \<open>Properties\<close>

lemma collect_results_eq:
  "collect_results scrapers irs (out, acc) =
     (out @ concat (map (\<lambda>(i, r). error_lines (scraper_name (scrapers ! i)) r) irs),
      acc @ concat (map (\<lambda>(i, r). contribution r) irs))"
proof (induction irs arbitrary: out acc)
  case Nil
  then show ?case by simp
next
  case (Cons ir irs)
  obtain i r where ir: "ir = (i, r)" by (cases ir)
  show ?case
    by (cases r) (simp_all add: ir Cons.IH)
qed

lemma enumerate_eq_zip: "py_enumerate i xs = zip [i..<i + length xs] xs"
proof (induction xs arbitrary: i)
  case Nil
  then show ?case by simp
next
  case (Cons x xs)
  have "[i..<i + length (x # xs)] = i # [Suc i..<Suc i + length xs]"
    by (simp add: upt_rec)
  then show ?case by (simp add: Cons.IH)
qed

lemma enumerate_map_upt:
  "py_enumerate 0 (map f [0..<n]) = map (\<lambda>i. (i, f i)) [0..<n]"
  by (simp add: enumerate_eq_zip zip_map2 zip_same_conv_map)

text \<open>
  C1. For every list of scrapers and every outcome of their fetches,
  \<open>get_all_trends\<close> returns (it is a total function) the concatenation, in the order
  of the scrapers, of the lists of the fetches that returned; a fetch that raised adds
  nothing to it, and each exception is printed as \<open>Error in <name>: <error>\<close>, in the
  order of the scrapers. With no scraper the one line printed is the warning.
\<close>

theorem get_all_trends_concat:
  "snd (get_all_trends scrapers outcome) =
     concat (map (\<lambda>i. contribution (outcome i)) [0..<length scrapers])
   \<and> fst (get_all_trends scrapers outcome) =
     (if scrapers = [] then [''Warning: No scrapers enabled'']
      else concat (map (\<lambda>i. error_lines (scraper_name (scrapers ! i)) (outcome i))
             [0..<length scrapers]))"
  by (simp add: get_all_trends_def collect_results_eq enumerate_map_upt comp_def)

subsection \<open>The registry\<close>

lemma construct_class: "construct c key cfg env = Inr s \<Longrightarrow> class_of s = c"
  by (cases c) (auto simp: TwitterScraper_init_def Let_def split: list.splits)

lemma available_identifier:
  "map_of AVAILABLE_SCRAPERS nm = Some c \<Longrightarrow> class_of s = c \<Longrightarrow> identifier_of s = nm"
  by (cases s) (auto simp: AVAILABLE_SCRAPERS_def split: if_splits)

lemma init_scrapers_ok:
  "init_scrapers key cfgs env names out ss = (out', Inr ss') \<Longrightarrow>
     map identifier_of ss' = map identifier_of ss @ filter (is_live key) names
     \<and> out' = out @ concat (map (skip_warning key) names)"
proof (induction names arbitrary: out ss)
  case Nil
  then show ?case by simp
next
  case (Cons nm names)
  show ?case
  proof (cases "map_of AVAILABLE_SCRAPERS nm")
    case None
    with Cons.prems
    have "init_scrapers key cfgs env names (out @ [warn_unknown nm]) ss = (out', Inr ss')"
      by simp
    from Cons.IH [OF this] None show ?thesis
      by (simp add: is_live_def skip_warning_def)
  next
    case (Some c)
    show ?thesis
    proof (cases "requires_sela c \<and> \<not> truthy_str key")
      case True
      with Cons.prems Some
      have "init_scrapers key cfgs env names (out @ [warn_requires_sela nm]) ss = (out', Inr ss')"
        by simp
      from Cons.IH [OF this] Some True show ?thesis
        by (simp add: is_live_def skip_warning_def)
    next
      case False
      show ?thesis
      proof (cases "construct c key (config_get cfgs nm) env")
        case (Inl e)
        with Cons.prems Some False show ?thesis by simp
      next
        case (Inr s)
        with Cons.prems Some False
        have "init_scrapers key cfgs env names out (ss @ [s]) = (out', Inr ss')"
          by simp
        from Cons.IH [OF this] Some False
          available_identifier [OF Some construct_class [OF Inr]]
        show ?thesis
          by (simp add: is_live_def skip_warning_def)
      qed
    qed
  qed
qed

lemma init_scrapers_raises:
  "init_scrapers key cfgs env names out ss = (out', Inl e) \<Longrightarrow>
     \<exists>nm c. nm \<in> set names \<and> is_live key nm \<and> map_of AVAILABLE_SCRAPERS nm = Some c
        \<and> construct c key (config_get cfgs nm) env = Inl e"
proof (induction names arbitrary: out ss)
  case Nil
  then show ?case by simp
next
  case (Cons nm names)
  show ?case
  proof (cases "map_of AVAILABLE_SCRAPERS nm")
    case None
    with Cons.prems
    have "init_scrapers key cfgs env names (out @ [warn_unknown nm]) ss = (out', Inl e)"
      by simp
    from Cons.IH [OF this] show ?thesis by auto
  next
    case (Some c)
    show ?thesis
    proof (cases "requires_sela c \<and> \<not> truthy_str key")
      case True
      with Cons.prems Some
      have "init_scrapers key cfgs env names (out @ [warn_requires_sela nm]) ss = (out', Inl e)"
        by simp
      from Cons.IH [OF this] show ?thesis by auto
    next
      case False
      show ?thesis
      proof (cases "construct c key (config_get cfgs nm) env")
        case (Inl e')
        with Cons.prems Some False have "e' = e" by simp
        with Inl Some False show ?thesis
          by (auto simp: is_live_def)
      next
        case (Inr s)
        with Cons.prems Some False
        have "init_scrapers key cfgs env names out (ss @ [s]) = (out', Inl e)"
          by simp
        from Cons.IH [OF this] show ?thesis by auto
      qed
    qed
  qed
qed

lemma construct_empty: "\<exists>s. construct c key [] env = Inr s"
  by (cases c) simp_all

lemma config_get_empty: "config_get [] nm = []"
  by (simp add: config_get_def)

lemma init_scrapers_no_config:
  "\<exists>ss'. snd (init_scrapers key [] env names out ss) = Inr ss'"
proof (cases "init_scrapers key [] env names out ss")
  case (Pair out' r)
  show ?thesis
  proof (cases r)
    case (Inl e)
    from init_scrapers_raises [OF Pair [unfolded Inl]]
    obtain c where "construct c key [] env = Inl e"
      by (auto simp: config_get_empty)
    with construct_empty [of c key env] show ?thesis by simp
  next
    case (Inr ss')
    with Pair show ?thesis by simp
  qed
qed

text \<open>
  C3. Whenever \<open>TrendScraper.__init__\<close> returns, the live scrapers are, in the order
  of the identifier list, those of the identifiers that the registry knows and whose
  class needs no missing credential (\<open>None\<close> or the empty string); each unknown
  identifier and each identifier without its credential is skipped with its warning
  and no scraper is constructed for it. An exception can only come from the
  constructor of a live identifier, never from a skipped one, and with no
  \<open>scraper_configs\<close> there is none. When the caller names no list, the enabled list is
  \<open>twitter\<close>, \<open>github\<close>.
\<close>

theorem registry_resolution:
  "(TrendScraper_init key enabled cfgs env = (out, Inr ss) \<longrightarrow>
      map identifier_of ss = filter (is_live key) (enabled_or_default enabled)
      \<and> out = concat (map (skip_warning key) (enabled_or_default enabled)))
   \<and> (TrendScraper_init key enabled cfgs env = (out, Inl e) \<longrightarrow>
        (\<exists>nm c. nm \<in> set (enabled_or_default enabled) \<and> is_live key nm
           \<and> map_of AVAILABLE_SCRAPERS nm = Some c
           \<and> construct c key (config_get (configs_or_empty cfgs) nm) env = Inl e))
   \<and> (\<exists>ss'. snd (TrendScraper_init key enabled None env) = Inr ss')
   \<and> enabled_or_default None = [''twitter'', ''github'']"
proof (intro conjI impI)
  assume "TrendScraper_init key enabled cfgs env = (out, Inr ss)"
  then have run: "init_scrapers key (configs_or_empty cfgs) env (enabled_or_default enabled) [] []
      = (out, Inr ss)"
    by (simp add: TrendScraper_init_def)
  from init_scrapers_ok [OF run]
  show "map identifier_of ss = filter (is_live key) (enabled_or_default enabled)"
    and "out = concat (map (skip_warning key) (enabled_or_default enabled))"
    by simp_all
next
  assume "TrendScraper_init key enabled cfgs env = (out, Inl e)"
  then have "init_scrapers key (configs_or_empty cfgs) env (enabled_or_default enabled) [] []
      = (out, Inl e)"
    by (simp add: TrendScraper_init_def)
  from init_scrapers_raises [OF this]
  show "\<exists>nm c. nm \<in> set (enabled_or_default enabled) \<and> is_live key nm
           \<and> map_of AVAILABLE_SCRAPERS nm = Some c
           \<and> construct c key (config_get (configs_or_empty cfgs) nm) env = Inl e" .
next
  show "\<exists>ss'. snd (TrendScraper_init key enabled None env) = Inr ss'"
    using init_scrapers_no_config [of key env "enabled_or_default enabled" "[]" "[]"]
    by (simp add: TrendScraper_init_def configs_or_empty_def)
next
  show "enabled_or_default None = [''twitter'', ''github'']"
    by (simp add: enabled_or_default_def DEFAULT_SCRAPERS_def)
qed

theorem registry_resolution_witness:
  "TrendScraper_init None (Some [''bogus'', ''twitter'', ''github'']) None None =
     ([warn_unknown ''bogus'', warn_requires_sela ''twitter''], Inr [GitHubInstance None])
   \<and> map identifier_of [GitHubInstance None] =
       filter (is_live None) (enabled_or_default (Some [''bogus'', ''twitter'', ''github'']))
   \<and> [warn_unknown ''bogus'', warn_requires_sela ''twitter''] =
       concat (map (skip_warning None) (enabled_or_default (Some [''bogus'', ''twitter'', ''github''])))"
proof -
  have run: "TrendScraper_init None (Some [''bogus'', ''twitter'', ''github'']) None None =
     ([warn_unknown ''bogus'', warn_requires_sela ''twitter''], Inr [GitHubInstance None])"
    by (simp add: TrendScraper_init_def enabled_or_default_def configs_or_empty_def
        config_get_def AVAILABLE_SCRAPERS_def)
  from registry_resolution [of None "Some [''bogus'', ''twitter'', ''github'']" None None
      "[warn_unknown ''bogus'', warn_requires_sela ''twitter'']" "[GitHubInstance None]"] run
  show ?thesis by simp
qed

subsection \<open>The repository source\<close>

lemma repo_items_Inr:
  "repo_items rs = Inr ts \<Longrightarrow>
     length ts = length rs \<and> (\<forall>i<length rs. repo_item (rs ! i) = Inr (ts ! i))"
proof (induction rs arbitrary: ts)
  case Nil
  then show ?case by simp
next
  case (Cons r rs)
  from Cons.prems obtain t ts' where
    t: "repo_item r = Inr t" and ts': "repo_items rs = Inr ts'" and ts: "ts = t # ts'"
    by (auto split: sum.splits)
  from Cons.IH [OF ts'] t ts show ?case
    by (auto simp: nth_Cons split: nat.splits)
qed

lemma repo_item_Inr:
  "repo_item r = Inr t \<Longrightarrow>
     source t = ''GitHub''
     \<and> score t = field_get (stargazers_count r)
     \<and> title t = (case field_get (full_name r) of None \<Rightarrow> ''None'' | Some s \<Rightarrow> s)
                   @ '' - '' @ language_or_unknown (language r)
     \<and> html_url r = Some (url t)
     \<and> description t = field_get (repo_description r)"
  by (auto simp: repo_item_def split: field.splits option.splits)

lemma github_fetch_items:
  "github_fetch reply = (out, items) \<Longrightarrow> items \<noteq> [] \<Longrightarrow>
     \<exists>repos. reply = Inr (GitHubResponse (Present repos)) \<and> repo_items (take 10 repos) = Inr items"
  by (auto simp: github_fetch_def split: sum.splits github_response.splits field.splits)

lemma repo_item_cases:
  "repo_item r =
     (if has_keys r then Inr (mapped_repo r) else Inl (key_error (missing_key r)))"
  by (cases "full_name r"; cases "language r"; cases "html_url r"; cases "stargazers_count r")
     (simp_all add: repo_item_def has_keys_def missing_key_def mapped_repo_def)

lemma repo_items_cases:
  "repo_items rs =
     (case find (\<lambda>r. \<not> has_keys r) rs of
        None \<Rightarrow> Inr (map mapped_repo rs)
      | Some r \<Rightarrow> Inl (key_error (missing_key r)))"
  by (induction rs) (simp_all add: repo_item_cases split: option.splits)

lemma github_fetch_cases:
  "github_fetch (Inr (GitHubResponse (Present repos))) =
     (case find (\<lambda>r. \<not> has_keys r) (take 10 repos) of
        None \<Rightarrow> ([], map mapped_repo (take 10 repos))
      | Some r \<Rightarrow> ([github_error (key_error (missing_key r))], []))"
  by (simp add: github_fetch_def repo_items_cases split: option.splits)

lemma find_None_all: "find (\<lambda>r. \<not> P r) rs = None \<longleftrightarrow> list_all P rs"
  by (induction rs) simp_all

text \<open>
  C8. For every response of the repository search, \<open>GitHubScraper.fetch\<close> maps the
  first 10 results: when each of them carries the four keys \<open>full_name\<close>, \<open>language\<close>,
  \<open>html_url\<close> and \<open>stargazers_count\<close>, it prints nothing and returns one item for
  each of them, in their order (all the results when there are fewer than 10), the item
  of a result having its \<open>stargazers_count\<close> as score and \<open>full_name - language\<close> as
  title, with \<open>Unknown\<close> for a \<open>null\<close> language. When one of the first 10 lacks a key,
  the \<open>KeyError\<close> of the first such result is printed and the list is empty. An
  exception of the request, and a \<open>null\<close> \<open>items\<close>, print the error and give the empty
  list; an absent or empty \<open>items\<close> array gives the empty list and prints nothing. In
  every case at most 10 items are returned.
\<close>

theorem github_fetch_maps:
  "github_fetch (Inr (GitHubResponse (Present repos))) =
     (case find (\<lambda>r. \<not> has_keys r) (take 10 repos) of
        None \<Rightarrow> ([], map mapped_repo (take 10 repos))
      | Some r \<Rightarrow> ([github_error (key_error (missing_key r))], []))
   \<and> (list_all has_keys (take 10 repos) \<longrightarrow>
        github_fetch (Inr (GitHubResponse (Present repos))) =
          ([], map mapped_repo (take 10 repos))
        \<and> length (snd (github_fetch (Inr (GitHubResponse (Present repos)))))
            = min 10 (length repos))
   \<and> score (mapped_repo r) = field_get (stargazers_count r)
   \<and> title (mapped_repo r) =
       (case field_get (full_name r) of None \<Rightarrow> ''None'' | Some s \<Rightarrow> s)
       @ '' - '' @ language_or_unknown (language r)
   \<and> (github_fetch (Inr (GitHubResponse (Present repos))) = (out, items) \<longrightarrow>
        length items \<le> 10
        \<and> (items = [] \<or> length items = min 10 (length repos))
        \<and> (\<forall>i<length items.
              score (items ! i) = field_get (stargazers_count (repos ! i))
              \<and> title (items ! i) =
                  (case field_get (full_name (repos ! i)) of None \<Rightarrow> ''None'' | Some s \<Rightarrow> s)
                  @ '' - '' @ language_or_unknown (language (repos ! i))))
   \<and> length (snd (github_fetch reply)) \<le> 10
   \<and> language_or_unknown Null = ''Unknown''
   \<and> language_or_unknown (Present (l # ls)) = l # ls
   \<and> github_fetch (Inr (GitHubResponse (Present []))) = ([], [])
   \<and> github_fetch (Inr (GitHubResponse Absent)) = ([], [])
   \<and> github_fetch (Inr (GitHubResponse Null)) = ([github_error not_subscriptable], [])
   \<and> github_fetch (Inl e) = ([github_error e], [])"
proof (intro conjI impI)
  show "github_fetch (Inr (GitHubResponse (Present repos))) =
     (case find (\<lambda>r. \<not> has_keys r) (take 10 repos) of
        None \<Rightarrow> ([], map mapped_repo (take 10 repos))
      | Some r \<Rightarrow> ([github_error (key_error (missing_key r))], []))"
    by (rule github_fetch_cases)
next
  assume "list_all has_keys (take 10 repos)"
  then have "find (\<lambda>r. \<not> has_keys r) (take 10 repos) = None"
    by (simp add: find_None_all)
  then show all: "github_fetch (Inr (GitHubResponse (Present repos))) =
          ([], map mapped_repo (take 10 repos))"
    by (simp add: github_fetch_cases)
  then show "length (snd (github_fetch (Inr (GitHubResponse (Present repos)))))
            = min 10 (length repos)"
    by (simp add: min_def)
next
  show "score (mapped_repo r) = field_get (stargazers_count r)"
    by (simp add: mapped_repo_def)
next
  show "title (mapped_repo r) =
       (case field_get (full_name r) of None \<Rightarrow> ''None'' | Some s \<Rightarrow> s)
       @ '' - '' @ language_or_unknown (language r)"
    by (simp add: mapped_repo_def)
next
  assume run: "github_fetch (Inr (GitHubResponse (Present repos))) = (out, items)"
  have "length items \<le> 10 \<and> (items = [] \<or> length items = min 10 (length repos))
      \<and> (\<forall>i<length items.
            score (items ! i) = field_get (stargazers_count (repos ! i))
            \<and> title (items ! i) =
                (case field_get (full_name (repos ! i)) of None \<Rightarrow> ''None'' | Some s \<Rightarrow> s)
                @ '' - '' @ language_or_unknown (language (repos ! i)))"
  proof (cases "items = []")
    case True
    then show ?thesis by simp
  next
    case False
    from github_fetch_items [OF run False]
    have items: "repo_items (take 10 repos) = Inr items" by simp
    from repo_items_Inr [OF items]
    have len: "length items = length (take 10 repos)"
      and each: "\<forall>i<length (take 10 repos). repo_item (take 10 repos ! i) = Inr (items ! i)"
      by simp_all
    show ?thesis
    proof (intro conjI allI impI)
      show "length items \<le> 10" using len by simp
      show "items = [] \<or> length items = min 10 (length repos)" using len by (simp add: min_def)
    next
      fix i assume i: "i < length items"
      with len each have "repo_item (repos ! i) = Inr (items ! i)" by simp
      from repo_item_Inr [OF this]
      show "score (items ! i) = field_get (stargazers_count (repos ! i))"
        and "title (items ! i) =
                (case field_get (full_name (repos ! i)) of None \<Rightarrow> ''None'' | Some s \<Rightarrow> s)
                @ '' - '' @ language_or_unknown (language (repos ! i))"
        by simp_all
    qed
  qed
  then show "length items \<le> 10" and "items = [] \<or> length items = min 10 (length repos)"
    and "\<forall>i<length items.
            score (items ! i) = field_get (stargazers_count (repos ! i))
            \<and> title (items ! i) =
                (case field_get (full_name (repos ! i)) of None \<Rightarrow> ''None'' | Some s \<Rightarrow> s)
                @ '' - '' @ language_or_unknown (language (repos ! i))"
    by simp_all
next
  show "length (snd (github_fetch reply)) \<le> 10"
  proof (cases "snd (github_fetch reply) = []")
    case True
    then show ?thesis by simp
  next
    case False
    obtain out items where run: "github_fetch reply = (out, items)"
      by (cases "github_fetch reply")
    with False have "items \<noteq> []" by simp
    from github_fetch_items [OF run this] obtain repos where
      "repo_items (take 10 repos) = Inr items" by auto
    from repo_items_Inr [OF this] have "length items = length (take 10 repos)" by simp
    with run show ?thesis by simp
  qed
next
  show "language_or_unknown Null = ''Unknown''"
    by (simp add: language_or_unknown_def)
next
  show "language_or_unknown (Present (l # ls)) = l # ls"
    by (simp add: language_or_unknown_def)
next
  show "github_fetch (Inr (GitHubResponse (Present []))) = ([], [])"
    by (simp add: github_fetch_def)
next
  show "github_fetch (Inr (GitHubResponse Absent)) = ([], [])"
    by (simp add: github_fetch_def)
next
  show "github_fetch (Inr (GitHubResponse Null)) = ([github_error not_subscriptable], [])"
    by (simp add: github_fetch_def)
next
  show "github_fetch (Inl e) = ([github_error e], [])"
    by (simp add: github_fetch_def)
qed

theorem github_fetch_maps_witness:
  "list_all has_keys (take 10
      [\<lparr>full_name = Present ''a/b'', language = Null, html_url = Some ''https://github.com/a/b'',
        stargazers_count = Present 42, repo_description = Absent\<rparr>,
       \<lparr>full_name = Present ''c/d'', language = Present ''Rust'',
        html_url = Some ''https://github.com/c/d'',
        stargazers_count = Present 7, repo_description = Present ''fast''\<rparr>])
   \<and> github_fetch (Inr (GitHubResponse (Present
      [\<lparr>full_name = Present ''a/b'', language = Null, html_url = Some ''https://github.com/a/b'',
        stargazers_count = Present 42, repo_description = Absent\<rparr>,
       \<lparr>full_name = Present ''c/d'', language = Present ''Rust'',
        html_url = Some ''https://github.com/c/d'',
        stargazers_count = Present 7, repo_description = Present ''fast''\<rparr>])))
     = ([], [\<lparr>source = ''GitHub'', title = ''a/b - Unknown'', url = ''https://github.com/a/b'',
              score = Some 42, description = None\<rparr>,
             \<lparr>source = ''GitHub'', title = ''c/d - Rust'', url = ''https://github.com/c/d'',
              score = Some 7, description = Some ''fast''\<rparr>])"
proof -
  let ?r1 = "\<lparr>full_name = Present ''a/b'', language = Null,
      html_url = Some ''https://github.com/a/b'',
      stargazers_count = Present (42::int), repo_description = Absent\<rparr>"
  let ?r2 = "\<lparr>full_name = Present ''c/d'', language = Present ''Rust'',
      html_url = Some ''https://github.com/c/d'',
      stargazers_count = Present (7::int), repo_description = Present ''fast''\<rparr>"
  have keys: "list_all has_keys (take 10 [?r1, ?r2])"
    by (simp add: has_keys_def)
  have "list_all has_keys (take 10 [?r1, ?r2]) \<longrightarrow>
        github_fetch (Inr (GitHubResponse (Present [?r1, ?r2]))) =
          ([], map mapped_repo (take 10 [?r1, ?r2]))
        \<and> length (snd (github_fetch (Inr (GitHubResponse (Present [?r1, ?r2])))))
            = min 10 (length [?r1, ?r2])"
    using github_fetch_maps [where repos = "[?r1, ?r2]"]
    by (rule conjunct1 [OF conjunct2])
  with keys have "github_fetch (Inr (GitHubResponse (Present [?r1, ?r2]))) =
          ([], map mapped_repo (take 10 [?r1, ?r2]))"
    by blast
  then have "github_fetch (Inr (GitHubResponse (Present [?r1, ?r2]))) =
     ([], [\<lparr>source = ''GitHub'', title = ''a/b - Unknown'', url = ''https://github.com/a/b'',
              score = Some 42, description = None\<rparr>,
           \<lparr>source = ''GitHub'', title = ''c/d - Rust'', url = ''https://github.com/c/d'',
              score = Some 7, description = Some ''fast''\<rparr>])"
    by (simp add: mapped_repo_def language_or_unknown_def)
  with keys show ?thesis by (rule conjI)
qed

subsection \<open>The social-search source\<close>

lemma tweet_item_cases:
  "tweet_item query item =
     (if maps_ok item then Inr (mapped_item query item) else Inl not_subscriptable)"
  by (cases "content item")
     (simp_all add: tweet_item_def content_slice_def maps_ok_def mapped_item_def)

lemma append_items_eq:
  "append_items query posts acc =
     ((if list_all maps_ok posts then None else Some not_subscriptable),
      acc @ map (mapped_item query) (takeWhile maps_ok posts))"
  by (induction posts arbitrary: acc) (simp_all add: tweet_item_cases)

lemma fetch_query_items:
  "snd (fetch_query quote post key pc query acc) =
     acc @ map (mapped_item query)
             (takeWhile maps_ok (posts_of post key (search_url quote query) pc))"
  by (simp add: fetch_query_def posts_of_def append_items_eq Let_def
      split: prod.splits sum.splits option.splits)

lemma fetch_queries_items:
  "snd (fetch_queries quote post key pc i queries (out, acc)) =
     acc @ concat (map (\<lambda>(j, q). map (mapped_item q)
                        (takeWhile maps_ok (posts_of (post j) key (search_url quote q) pc)))
                    (py_enumerate i queries))"
proof (induction queries arbitrary: i out acc)
  case Nil
  then show ?case by simp
next
  case (Cons q queries)
  obtain out1 acc1 where step: "fetch_query quote (post i) key pc q acc = (out1, acc1)"
    by (cases "fetch_query quote (post i) key pc q acc")
  from fetch_query_items [of quote "post i" key pc q acc] step
  have acc1: "acc1 = acc @ map (mapped_item q)
             (takeWhile maps_ok (posts_of (post i) key (search_url quote q) pc))"
    by simp
  show ?case
    by (simp add: step Cons.IH acc1)
qed

lemma posts_of_no_key: "\<not> truthy_str key \<Longrightarrow> posts_of post key u pc = []"
  by (simp add: posts_of_def sela_scrape_def py_take_def)

lemma twitter_fetch_items:
  "snd (twitter_fetch quote post key queries pc) =
     concat (map (\<lambda>(j, q). map (mapped_item q)
                        (takeWhile maps_ok (posts_of (post j) key (search_url quote q) pc)))
                    (py_enumerate 0 queries))"
proof (cases "truthy_str key")
  case True
  then show ?thesis
    by (simp add: twitter_fetch_def fetch_queries_items)
next
  case False
  have "concat (map (\<lambda>(j, q). map (mapped_item q)
                        (takeWhile maps_ok (posts_of (post j) key (search_url quote q) pc)))
                    (py_enumerate i queries)) = []" for i
    by (induction queries arbitrary: i) (simp_all add: posts_of_no_key [OF False])
  with False show ?thesis
    by (simp add: twitter_fetch_def)
qed

lemma fetch_query_lines:
  "fst (fetch_query quote post key pc query acc) = query_lines quote post key pc query"
  by (simp add: fetch_query_def query_lines_def query_error_def append_items_eq Let_def
      split: prod.splits sum.splits option.splits)

lemma fetch_queries_lines:
  "fst (fetch_queries quote post key pc i queries (out, acc)) =
     out @ concat (map (\<lambda>(j, q). query_lines quote (post j) key pc q) (py_enumerate i queries))"
proof (induction queries arbitrary: i out acc)
  case Nil
  then show ?case by simp
next
  case (Cons q queries)
  obtain out1 acc1 where step: "fetch_query quote (post i) key pc q acc = (out1, acc1)"
    by (cases "fetch_query quote (post i) key pc q acc")
  from fetch_query_lines [of quote "post i" key pc q acc] step
  have out1: "out1 = query_lines quote (post i) key pc q"
    by simp
  show ?case
    by (simp add: step Cons.IH out1)
qed

lemma query_lines_no_key: "\<not> truthy_str key \<Longrightarrow> query_lines quote post key pc q = []"
  by (simp add: query_lines_def query_error_def sela_scrape_def py_take_def)

lemma twitter_fetch_lines:
  "fst (twitter_fetch quote post key queries pc) =
     concat (map (\<lambda>(j, q). query_lines quote (post j) key pc q) (py_enumerate 0 queries))"
proof (cases "truthy_str key")
  case True
  then show ?thesis
    by (simp add: twitter_fetch_def fetch_queries_lines)
next
  case False
  have "concat (map (\<lambda>(j, q). query_lines quote (post j) key pc q) (py_enumerate i queries)) = []"
    for i
    by (induction queries arbitrary: i) (simp_all add: query_lines_no_key [OF False])
  with False show ?thesis
    by (simp add: twitter_fetch_def)
qed

lemma query_error_None:
  "query_error post key u pc = None \<Longrightarrow> list_all maps_ok (posts_of post key u pc)"
  by (auto simp: query_error_def posts_of_def split: sum.splits option.splits if_splits)

lemma takeWhile_all: "list_all P xs \<Longrightarrow> takeWhile P xs = xs"
  by (induction xs) simp_all

text \<open>
  C6 (amended). \<open>TwitterScraper.fetch\<close> returns the concatenation, in the order of the
  queries, of what each query contributes by itself: the items of the posts of its
  response (at most the first \<open>post_count\<close>) up to the first post that fails to map.
  A query whose \<open>try\<close> catches no exception contributes an item for every one of its
  posts, a query whose request fails contributes none, and a query that fails at a
  post keeps the items mapped before it. The lines printed are those of the queries in
  order, one \<open>Error searching\<close> line for each failing query.
\<close>

theorem twitter_fetch_isolates_queries:
  "snd (twitter_fetch quote post key queries pc) =
     concat (map (\<lambda>(j, q). map (mapped_item q)
                    (takeWhile maps_ok (posts_of (post j) key (search_url quote q) pc)))
              (py_enumerate 0 queries))
   \<and> fst (twitter_fetch quote post key queries pc) =
     concat (map (\<lambda>(j, q). query_lines quote (post j) key pc q) (py_enumerate 0 queries))
   \<and> (query_error p key u pc = None \<longrightarrow>
        takeWhile maps_ok (posts_of p key u pc) = posts_of p key u pc)"
  using twitter_fetch_items [of quote post key queries pc]
    twitter_fetch_lines [of quote post key queries pc]
    takeWhile_all [OF query_error_None [of p key u pc]]
  by simp

lemma in_py_enumerate:
  "(j, q) \<in> set (py_enumerate 0 qs) \<Longrightarrow> j < length qs \<and> q = qs ! j"
  by (auto simp: enumerate_eq_zip in_set_zip)

lemma twitter_fetch_member:
  assumes "t \<in> set (snd (twitter_fetch quote post key queries pc))"
  shows "\<exists>j item. j < length queries
           \<and> item \<in> set (posts_of (post j) key (search_url quote (queries ! j)) pc)
           \<and> tweet_item (queries ! j) item = Inr t"
proof -
  from assms obtain j q item where
    jq: "(j, q) \<in> set (py_enumerate 0 queries)"
    and item: "item \<in> set (takeWhile maps_ok (posts_of (post j) key (search_url quote q) pc))"
    and t: "t = mapped_item q item"
    by (auto simp: twitter_fetch_items)
  from in_py_enumerate [OF jq] have j: "j < length queries" and q: "q = queries ! j"
    by simp_all
  from item have ok: "maps_ok item"
    and mem: "item \<in> set (posts_of (post j) key (search_url quote q) pc)"
    by (auto dest: set_takeWhileD)
  from ok t have "tweet_item q item = Inr t"
    by (simp add: tweet_item_cases)
  with j q mem show ?thesis by auto
qed

text \<open>
  C5 (amended). Every item that \<open>TwitterScraper.fetch\<close> returns is the image of a post
  of the response to one of its queries, and for a post that maps: the source label is
  \<open>Twitter/X (<query>)\<close>; the title is the first 100 characters of the content (empty
  when the key is absent); a non-empty \<open>tweetUrl\<close> that does not start with \<open>http\<close>, a
  relative path in particular, is prefixed with \<open>https://x.com\<close>; and the score is the
  likes count when that is present and not zero, and otherwise the views count
  (\<open>None\<close> when that is absent or \<open>null\<close>).
\<close>

theorem tweet_mapping:
  "(t \<in> set (snd (twitter_fetch quote post key queries pc)) \<longrightarrow>
      (\<exists>j item. j < length queries
         \<and> item \<in> set (posts_of (post j) key (search_url quote (queries ! j)) pc)
         \<and> tweet_item (queries ! j) item = Inr t))
   \<and> (tweet_item query item = Inr t \<longrightarrow>
        source t = ''Twitter/X ('' @ query @ '')''
        \<and> title t = take 100 (case content item of Present text \<Rightarrow> text | _ \<Rightarrow> [])
        \<and> url t = (case tweetUrl item of
                     None \<Rightarrow> []
                   | Some u \<Rightarrow> if u \<noteq> [] \<and> \<not> startswith u ''http''
                              then ''https://x.com'' @ u else u)
        \<and> (\<forall>rest. tweetUrl item = Some (CHR ''/'' # rest) \<longrightarrow> url t = ''https://x.com/'' @ rest)
        \<and> score t = (case likesCount item of
                       Present n \<Rightarrow> if n \<noteq> 0 then Some n else field_get (viewsCount item)
                     | _ \<Rightarrow> field_get (viewsCount item)))"
proof (intro conjI impI)
  assume "t \<in> set (snd (twitter_fetch quote post key queries pc))"
  from twitter_fetch_member [OF this]
  show "\<exists>j item. j < length queries
         \<and> item \<in> set (posts_of (post j) key (search_url quote (queries ! j)) pc)
         \<and> tweet_item (queries ! j) item = Inr t" .
next
  assume a: "tweet_item query item = Inr t"
  then have ok: "maps_ok item" and t: "t = mapped_item query item"
    by (simp_all add: tweet_item_cases split: if_splits)
  show "source t = ''Twitter/X ('' @ query @ '')''"
    by (simp add: t mapped_item_def)
  show "title t = take 100 (case content item of Present text \<Rightarrow> text | _ \<Rightarrow> [])"
    by (cases "content item") (simp_all add: t mapped_item_def)
  show "url t = (case tweetUrl item of
                     None \<Rightarrow> []
                   | Some u \<Rightarrow> if u \<noteq> [] \<and> \<not> startswith u ''http''
                              then ''https://x.com'' @ u else u)"
    by (cases "tweetUrl item") (simp_all add: t mapped_item_def normalize_url_def)
  show "\<forall>rest. tweetUrl item = Some (CHR ''/'' # rest) \<longrightarrow> url t = ''https://x.com/'' @ rest"
    by (simp add: t mapped_item_def normalize_url_def startswith_def)
  show "score t = (case likesCount item of
                       Present n \<Rightarrow> if n \<noteq> 0 then Some n else field_get (viewsCount item)
                     | _ \<Rightarrow> field_get (viewsCount item))"
    by (cases "likesCount item") (simp_all add: t mapped_item_def likes_or_views_def)
qed

lemmas fetch_eval =
  twitter_fetch_def fetch_query_def sela_scrape_def search_url_def tweet_item_def
  content_slice_def normalize_url_def startswith_def likes_or_views_def py_take_def
  search_error_def not_subscriptable_def

text \<open>
  C5 as stated fails for a post with no likes: its likes count is present (it is 0), and
  the score is the views count, 7.
\<close>

theorem zero_likes_counterexample:
  "twitter_fetch (\<lambda>q. q)
     (\<lambda>i u n. Inr \<lparr>status_code = 200, body_text = [],
        body_json = Inr (SelaResponse (Present (SelaData (Present
          [\<lparr>tweetUrl = Some ''/u/status/1'', content = Present ''hi'',
            likesCount = Present 0, viewsCount = Present 7\<rparr>]))))\<rparr>)
     (Some ''k'') [''AI''] 5
   = ([], [\<lparr>source = ''Twitter/X (AI)'', title = ''hi'', url = ''https://x.com/u/status/1'',
            score = Some 7, description = Some ''hi''\<rparr>])"
  by (simp add: fetch_eval)

text \<open>
  C6 as stated fails when a query fails at its second post: the first post's item stays
  in the result, which is therefore not the concatenation of the items of the queries
  that did not fail (here only the second query).
\<close>

theorem failing_query_counterexample:
  "twitter_fetch (\<lambda>q. q)
     (\<lambda>i u n. Inr \<lparr>status_code = 200, body_text = [],
        body_json = Inr (SelaResponse (Present (SelaData (Present
          (if i = 0
           then [\<lparr>tweetUrl = Some ''/a/1'', content = Present ''first'',
                   likesCount = Present 3, viewsCount = Absent\<rparr>,
                 \<lparr>tweetUrl = Some ''/a/2'', content = Null,
                   likesCount = Present 4, viewsCount = Absent\<rparr>]
           else [\<lparr>tweetUrl = Some ''/b/1'', content = Present ''second'',
                   likesCount = Present 5, viewsCount = Absent\<rparr>])))))\<rparr>)
     (Some ''k'') [''a'', ''b''] 5
   = ([search_error ''a'' not_subscriptable],
      [\<lparr>source = ''Twitter/X (a)'', title = ''first'', url = ''https://x.com/a/1'',
         score = Some 3, description = Some ''first''\<rparr>,
       \<lparr>source = ''Twitter/X (b)'', title = ''second'', url = ''https://x.com/b/1'',
         score = Some 5, description = Some ''second''\<rparr>])"
  by (simp add: fetch_eval)

theorem tweet_mapping_witness:
  "tweet_item ''AI'' \<lparr>tweetUrl = Some ''/u/status/1'', content = Present ''hi'',
       likesCount = Present 0, viewsCount = Present 7\<rparr>
     = Inr \<lparr>source = ''Twitter/X (AI)'', title = ''hi'', url = ''https://x.com/u/status/1'',
            score = Some 7, description = Some ''hi''\<rparr>
   \<and> score \<lparr>source = ''Twitter/X (AI)'', title = ''hi'', url = ''https://x.com/u/status/1'',
            score = Some 7, description = Some ''hi''\<rparr>
       = field_get (viewsCount \<lparr>tweetUrl = Some ''/u/status/1'', content = Present ''hi'',
            likesCount = Present 0, viewsCount = Present (7::int)\<rparr>)"
proof -
  have run: "tweet_item ''AI'' \<lparr>tweetUrl = Some ''/u/status/1'', content = Present ''hi'',
       likesCount = Present 0, viewsCount = Present 7\<rparr>
     = Inr \<lparr>source = ''Twitter/X (AI)'', title = ''hi'', url = ''https://x.com/u/status/1'',
            score = Some 7, description = Some ''hi''\<rparr>"
    by (simp add: fetch_eval)
  from tweet_mapping [where query = "''AI''"
      and item = "\<lparr>tweetUrl = Some ''/u/status/1'', content = Present ''hi'',
       likesCount = Present 0, viewsCount = Present 7\<rparr>"
      and t = "\<lparr>source = ''Twitter/X (AI)'', title = ''hi'', url = ''https://x.com/u/status/1'',
            score = Some 7, description = Some ''hi''\<rparr>"] run
  show ?thesis by simp
qed

theorem twitter_fetch_isolates_queries_witness:
  "query_error (\<lambda>u n. Inr \<lparr>status_code = 200, body_text = [],
        body_json = Inr (SelaResponse (Present (SelaData (Present
          [\<lparr>tweetUrl = Some ''/b/1'', content = Present ''second'',
             likesCount = Present 5, viewsCount = Absent\<rparr>]))))\<rparr>) (Some ''k'') ''u'' 5 = None
   \<and> takeWhile maps_ok (posts_of (\<lambda>u n. Inr \<lparr>status_code = 200, body_text = [],
        body_json = Inr (SelaResponse (Present (SelaData (Present
          [\<lparr>tweetUrl = Some ''/b/1'', content = Present ''second'',
             likesCount = Present 5, viewsCount = Absent\<rparr>]))))\<rparr>) (Some ''k'') ''u'' 5)
     = [\<lparr>tweetUrl = Some ''/b/1'', content = Present ''second'',
             likesCount = Present 5, viewsCount = Absent\<rparr>]"
proof -
  have ok: "query_error (\<lambda>u n. Inr \<lparr>status_code = 200, body_text = [],
        body_json = Inr (SelaResponse (Present (SelaData (Present
          [\<lparr>tweetUrl = Some ''/b/1'', content = Present ''second'',
             likesCount = Present 5, viewsCount = Absent\<rparr>]))))\<rparr>) (Some ''k'') ''u'' 5 = None"
    by (simp add: query_error_def sela_scrape_def py_take_def maps_ok_def)
  have posts: "posts_of (\<lambda>u n. Inr \<lparr>status_code = 200, body_text = [],
        body_json = Inr (SelaResponse (Present (SelaData (Present
          [\<lparr>tweetUrl = Some ''/b/1'', content = Present ''second'',
             likesCount = Present 5, viewsCount = Absent\<rparr>]))))\<rparr>) (Some ''k'') ''u'' 5
     = [\<lparr>tweetUrl = Some ''/b/1'', content = Present ''second'',
             likesCount = Present 5, viewsCount = Absent\<rparr>]"
    by (simp add: posts_of_def sela_scrape_def py_take_def)
  from twitter_fetch_isolates_queries [where p = "\<lambda>u n. Inr \<lparr>status_code = 200, body_text = [],
        body_json = Inr (SelaResponse (Present (SelaData (Present
          [\<lparr>tweetUrl = Some ''/b/1'', content = Present ''second'',
             likesCount = Present 5, viewsCount = Absent\<rparr>]))))\<rparr>"
      and key = "Some ''k''" and u = "''u''" and pc = 5] ok posts
  show ?thesis by simp
qed


subsection \<open>The digest\<close>

lemma first_appearances_snoc:
  "first_appearances (xs @ [x]) =
     (if x \<in> set xs then first_appearances xs else first_appearances xs @ [x])"
proof (induction xs rule: first_appearances.induct)
  case 1
  then show ?case by simp
next
  case (2 y ys)
  show ?case
  proof (cases "x = y")
    case True
    then show ?thesis by simp
  next
    case False
    with "2.IH" show ?thesis by simp
  qed
qed

lemma set_first_appearances: "set (first_appearances xs) = set xs"
  by (induction xs rule: first_appearances.induct) auto

lemma distinct_first_appearances: "distinct (first_appearances xs)"
  by (induction xs rule: first_appearances.induct) (auto simp: set_first_appearances)

lemma filter_absent: "k \<notin> set (map f xs) \<Longrightarrow> filter (\<lambda>t. f t = k) xs = []"
  by (induction xs) auto

lemma dict_append_map:
  "distinct ks \<Longrightarrow>
     dict_append k t (map (\<lambda>s. (s, f s)) ks) =
       map (\<lambda>s. (s, if s = k then f s @ [t] else f s)) ks"
  by (induction ks) auto

lemma map_of_keys:
  "map_of (map (\<lambda>s. (s, f s)) ks) k = (if k \<in> set ks then Some (f k) else None)"
  by (induction ks) auto

lemma group_step_groups_of: "group_step (groups_of xs) x = groups_of (xs @ [x])"
proof (cases "source x \<in> set (map source xs)")
  case True
  then have fa: "first_appearances (map source (xs @ [x])) = first_appearances (map source xs)"
    by (simp add: first_appearances_snoc)
  from True have "map_of (groups_of xs) (source x) \<noteq> None"
    by (simp add: groups_of_def map_of_keys set_first_appearances)
  then have "group_step (groups_of xs) x = dict_append (source x) x (groups_of xs)"
    by (auto simp: group_step_def)
  also have "\<dots> = groups_of (xs @ [x])"
    unfolding groups_of_def fa
    by (simp add: dict_append_map distinct_first_appearances)
  finally show ?thesis .
next
  case False
  then have fa: "first_appearances (map source (xs @ [x])) =
      first_appearances (map source xs) @ [source x]"
    by (simp add: first_appearances_snoc)
  from False have none: "filter (\<lambda>t. source t = source x) xs = []"
    by (rule filter_absent)
  from False have "map_of (groups_of xs) (source x) = None"
    by (simp add: groups_of_def map_of_keys set_first_appearances)
  then have "group_step (groups_of xs) x =
      dict_append (source x) x (groups_of xs @ [(source x, [])])"
    by (simp add: group_step_def)
  also have "groups_of xs @ [(source x, [])] =
      map (\<lambda>src. (src, filter (\<lambda>t. source t = src) xs))
        (first_appearances (map source (xs @ [x])))"
    unfolding fa by (simp add: groups_of_def none)
  also have "dict_append (source x) x \<dots> = groups_of (xs @ [x])"
    unfolding groups_of_def
    by (simp add: dict_append_map distinct_first_appearances)
  finally show ?thesis .
qed

lemma foldl_group_step: "foldl group_step [] trends = groups_of trends"
proof (induction trends rule: rev_induct)
  case Nil
  then show ?case by (simp add: groups_of_def)
next
  case (snoc x xs)
  then show ?case by (simp add: group_step_groups_of)
qed

lemma format_trends_digest: "format_trends trends = join [CHR 0x0A] (digest_lines trends)"
  by (simp add: format_trends_def foldl_group_step groups_of_def digest_lines_def
      source_lines_def comp_def)

text \<open>
  C4. For every list of items, the digest of \<open>_format_trends\<close> is, joined by
  newlines: for each source label, in the order of first appearance and once each (the
  labels are distinct and are exactly the labels of the items), the heading
  \<open>### <label>\<close>, the lines of the first 10 items with that label in their original
  order, and an empty line. The line of an item is \<open>- <title>\<close>, then
  \<open> (score: N)\<close> when it has a score that is not 0, then, when it has a description
  that is not empty, a newline, three spaces, the first 100 characters of the
  description and \<open>...\<close>.
\<close>

theorem format_trends_groups:
  "format_trends trends = join [CHR 0x0A] (digest_lines trends)
   \<and> distinct (first_appearances (map source trends))
   \<and> set (first_appearances (map source trends)) = set (map source trends)
   \<and> item_line item =
       ''- '' @ title item
       @ (case score item of
            None \<Rightarrow> []
          | Some n \<Rightarrow> if n \<noteq> 0 then '' (score: '' @ str_int n @ '')'' else [])
       @ (case description item of
            None \<Rightarrow> []
          | Some d \<Rightarrow> if d \<noteq> [] then [CHR 0x0A] @ ''   '' @ take 100 d @ ''...'' else [])"
  by (simp add: format_trends_digest distinct_first_appearances set_first_appearances
      item_line_def score_str_def desc_str_def)

lemma digest_lines_map:
  assumes src: "\<And>t. source (g t) = source t" and line: "\<And>t. item_line (g t) = item_line t"
  shows "digest_lines (map g trends) = digest_lines trends"
proof -
  have "map item_line (take 10 (filter (\<lambda>t. source t = s) (map g trends))) =
        map item_line (take 10 (filter (\<lambda>t. source t = s) trends))" for s
    by (simp add: filter_map take_map comp_def src line)
  then show ?thesis
    by (simp add: digest_lines_def comp_def src)
qed

lemma item_line_score_zero: "item_line (item\<lparr>score := Some 0\<rparr>) = item_line (item\<lparr>score := None\<rparr>)"
  by (simp add: item_line_def score_str_def desc_str_def)

lemma item_line_description_empty:
  "item_line (item\<lparr>description := Some []\<rparr>) = item_line (item\<lparr>description := None\<rparr>)"
  by (simp add: item_line_def score_str_def desc_str_def)

text \<open>
  C10. In the digest, the suffix and the follow-up line are decided by truthiness: the
  line of an item with score 0 is the line of the same item with no score, and the
  line of an item with the empty description is the line of the same item with no
  description; neither has a suffix or a follow-up line. So replacing every score 0 by
  no score, or every empty description by no description, leaves the digest of a list
  of items unchanged.
\<close>

theorem falsy_fields_not_rendered:
  "item_line (item\<lparr>score := Some 0\<rparr>) = item_line (item\<lparr>score := None\<rparr>)
   \<and> score_str (item\<lparr>score := Some 0\<rparr>) = []
   \<and> item_line (item\<lparr>description := Some []\<rparr>) = item_line (item\<lparr>description := None\<rparr>)
   \<and> desc_str (item\<lparr>description := Some []\<rparr>) = []
   \<and> format_trends (map (\<lambda>t. if score t = Some 0 then t\<lparr>score := None\<rparr> else t) trends)
       = format_trends trends
   \<and> format_trends
         (map (\<lambda>t. if description t = Some [] then t\<lparr>description := None\<rparr> else t) trends)
       = format_trends trends"
proof (intro conjI)
  show "item_line (item\<lparr>score := Some 0\<rparr>) = item_line (item\<lparr>score := None\<rparr>)"
    by (rule item_line_score_zero)
  show "score_str (item\<lparr>score := Some 0\<rparr>) = []"
    by (simp add: score_str_def)
  show "item_line (item\<lparr>description := Some []\<rparr>) = item_line (item\<lparr>description := None\<rparr>)"
    by (rule item_line_description_empty)
  show "desc_str (item\<lparr>description := Some []\<rparr>) = []"
    by (simp add: desc_str_def)
  have "item_line (if score t = Some 0 then t\<lparr>score := None\<rparr> else t) = item_line t" for t
    by (cases "score t = Some 0") (simp_all add: item_line_def score_str_def desc_str_def)
  then have "digest_lines (map (\<lambda>t. if score t = Some 0 then t\<lparr>score := None\<rparr> else t) trends)
      = digest_lines trends"
    by (intro digest_lines_map) simp_all
  then show "format_trends (map (\<lambda>t. if score t = Some 0 then t\<lparr>score := None\<rparr> else t) trends)
       = format_trends trends"
    by (simp only: format_trends_digest)
  have "item_line (if description t = Some [] then t\<lparr>description := None\<rparr> else t) = item_line t"
    for t
    by (cases "description t = Some []")
      (simp_all add: item_line_def score_str_def desc_str_def)
  then have "digest_lines
      (map (\<lambda>t. if description t = Some [] then t\<lparr>description := None\<rparr> else t) trends)
      = digest_lines trends"
    by (intro digest_lines_map) simp_all
  then show "format_trends
         (map (\<lambda>t. if description t = Some [] then t\<lparr>description := None\<rparr> else t) trends)
       = format_trends trends"
    by (simp only: format_trends_digest)
qed

subsection \<open>The parse step\<close>

lemma those_Some:
  "those xs = Some ys \<Longrightarrow> length ys = length xs \<and> (\<forall>i<length xs. xs ! i = Some (ys ! i))"
proof (induction xs arbitrary: ys)
  case Nil
  then show ?case by simp
next
  case (Cons x xs)
  from Cons.prems obtain y ys' where
    x: "x = Some y" and rest: "those xs = Some ys'" and ys: "ys = y # ys'"
    by (auto split: option.splits)
  from Cons.IH [OF rest] x ys show ?case
    by (auto simp: nth_Cons split: nat.splits)
qed

lemma parse_response_Inr:
  assumes "parse_response loads describe text = Inr r"
  shows "\<exists>s members xs. text = Some s \<and> loads s = Inr (JObj members)
           \<and> map_of members ''ideas'' = Some (JArr xs)
           \<and> those (map validate_idea xs) = Some (ideas r)"
proof -
  from assms obtain data where
    loaded: "json_loads loads text = Inr data" and init: "AnalysisResult_init describe data = Inr r"
    by (auto simp: parse_response_def split: sum.splits if_splits)
  from loaded obtain s where tx: "text = Some s" and s: "loads s = Inr data"
    by (auto simp: json_loads_def split: option.splits sum.splits)
  from init obtain members where data: "data = JObj members"
    and valid: "validate_result members = Some r"
    by (cases data) (auto split: option.splits)
  from valid obtain j where j: "map_of members ''ideas'' = Some j"
    and ideas: "validate_ideas j = Some (ideas r)"
    by (auto split: option.splits simp: Option.bind_eq_Some_conv)
  from ideas obtain xs where "j = JArr xs" and "those (map validate_idea xs) = Some (ideas r)"
    by (cases j) auto
  with tx s data j show ?thesis by auto
qed

text \<open>
  C9 (amended). When the parse step succeeds, the response text decoded to an object
  whose \<open>ideas\<close> member is an array, and the \<open>ideas\<close> of the result are the validated
  elements of that array, one for each and in the same order: as many as the response
  holds, whatever their number. (The prompt asks for 3; the parse step does not count.)
\<close>

theorem parsed_ideas_follow_response:
  "parse_response loads describe response = Inr r \<longrightarrow>
     (\<exists>s members xs. response = Some s \<and> loads s = Inr (JObj members)
        \<and> map_of members ''ideas'' = Some (JArr xs)
        \<and> length (ideas r) = length xs
        \<and> (\<forall>i<length xs. validate_idea (xs ! i) = Some (ideas r ! i)))"
proof
  assume "parse_response loads describe response = Inr r"
  from parse_response_Inr [OF this] obtain s members xs where
    a: "response = Some s" "loads s = Inr (JObj members)" "map_of members ''ideas'' = Some (JArr xs)"
    and b: "those (map validate_idea xs) = Some (ideas r)"
    by blast
  from those_Some [OF b] have "length (ideas r) = length xs"
    and "\<forall>i<length xs. validate_idea (xs ! i) = Some (ideas r ! i)"
    by simp_all
  with a show "\<exists>s members xs. response = Some s \<and> loads s = Inr (JObj members)
        \<and> map_of members ''ideas'' = Some (JArr xs)
        \<and> length (ideas r) = length xs
        \<and> (\<forall>i<length xs. validate_idea (xs ! i) = Some (ideas r ! i))"
    by blast
qed

text \<open>
  C9 as stated fails for a response with an empty \<open>ideas\<close> array: the parse succeeds
  and the result has no idea at all.
\<close>

theorem no_ideas_counterexample:
  "parse_response
     (\<lambda>s. Inr (JObj [(''trend_summary'', JStr ''quiet day''), (''ideas'', JArr [])]))
     (\<lambda>j. ''invalid'') (Some ''{...}'')
   = Inr \<lparr>trend_summary = ''quiet day'', ideas = []\<rparr>"
  by (simp add: parse_response_def json_loads_def)

text \<open>
  C2. The claim fails on the code. For a response that decodes to an object without
  the \<open>ideas\<close> member, whatever its text, the constructor raises pydantic's
  \<open>ValidationError\<close>; the \<open>except\<close> clause lists \<open>JSONDecodeError\<close> and \<open>TypeError\<close>
  only, so the exception leaves \<open>analyze_and_generate\<close> as it is, not wrapped in the
  \<open>ValueError\<close> that carries the response text. The two lemmas after it show the
  paths that the clause does catch: text that does not decode, and a decoded value that
  is no object.
\<close>

theorem missing_ideas_not_wrapped:
  "parse_response
     (\<lambda>s. Inr (JObj [(''trend_summary'', JStr ''quiet day'')]))
     describe (Some text)
   = Inl (PyExc ValidationError (describe (JObj [(''trend_summary'', JStr ''quiet day'')])))"
  by (simp add: parse_response_def json_loads_def caught_def)

lemma parse_response_decode_error:
  "loads s = Inl msg \<Longrightarrow>
     parse_response loads describe (Some s) =
       Inl (PyExc ValueError
         (''Failed to parse Gemini response: '' @ msg @ [CHR 0x0A] @ ''Response: '' @ s))"
  by (simp add: parse_response_def json_loads_def caught_def parse_failure_def)

lemma parse_response_not_object:
  "loads s = Inr data \<Longrightarrow> (\<And>members. data \<noteq> JObj members) \<Longrightarrow>
     parse_response loads describe (Some s) =
       Inl (PyExc ValueError
         (''Failed to parse Gemini response: '' @ describe data @ [CHR 0x0A] @ ''Response: '' @ s))"
  by (cases data) (auto simp: parse_response_def json_loads_def caught_def parse_failure_def)

theorem parsed_ideas_follow_response_witness:
  "parse_response
     (\<lambda>s. Inr (JObj [(''trend_summary'', JStr ''quiet day''),
        (''ideas'', JArr [JObj [(''title'', JStr ''a''), (''description'', JStr ''b''),
           (''why_now'', JStr ''c''), (''difficulty'', JStr ''easy''),
           (''tech_stack'', JArr [JStr ''python'']), (''first_step'', JStr ''d'')]])]))
     (\<lambda>j. ''invalid'') (Some ''{...}'')
   = Inr \<lparr>trend_summary = ''quiet day'',
          ideas = [\<lparr>idea_title = ''a'', idea_description = ''b'', why_now = ''c'',
                    difficulty = ''easy'', tech_stack = [''python''], first_step = ''d''\<rparr>]\<rparr>
   \<and> (\<exists>xs. length (ideas \<lparr>trend_summary = ''quiet day'',
          ideas = [\<lparr>idea_title = ''a'', idea_description = ''b'', why_now = ''c'',
                    difficulty = ''easy'', tech_stack = [''python''], first_step = ''d''\<rparr>]\<rparr>)
          = length (xs :: json list))"
proof -
  let ?loads = "\<lambda>s :: string. (Inr (JObj [(''trend_summary'', JStr ''quiet day''),
        (''ideas'', JArr [JObj [(''title'', JStr ''a''), (''description'', JStr ''b''),
           (''why_now'', JStr ''c''), (''difficulty'', JStr ''easy''),
           (''tech_stack'', JArr [JStr ''python'']), (''first_step'', JStr ''d'')]])])
        :: string + json)"
  let ?r = "\<lparr>trend_summary = ''quiet day'',
          ideas = [\<lparr>idea_title = ''a'', idea_description = ''b'', why_now = ''c'',
                    difficulty = ''easy'', tech_stack = [''python''], first_step = ''d''\<rparr>]\<rparr>"
  have run: "parse_response ?loads (\<lambda>j. ''invalid'') (Some ''{...}'') = Inr ?r"
    by (simp add: parse_response_def json_loads_def)
  from parsed_ideas_follow_response
    [where loads = "?loads" and describe = "\<lambda>j. ''invalid''" and response = "Some ''{...}''"
       and r = "?r"] run
  have "\<exists>s members xs. Some ''{...}'' = Some s \<and> ?loads s = Inr (JObj members)
        \<and> map_of members ''ideas'' = Some (JArr xs)
        \<and> length (ideas ?r) = length xs
        \<and> (\<forall>i<length xs. validate_idea (xs ! i) = Some (ideas ?r ! i))"
    by (rule mp)
  then have "\<exists>xs :: json list. length (ideas ?r) = length xs"
    by blast
  with run show ?thesis by (rule conjI)
qed

subsection \<open>The service\<close>

lemma no_live_identifier:
  "filter (is_live key) names = [] \<Longrightarrow>
     init_scrapers key cfgs env names out ss =
       (out @ concat (map (skip_warning key) names), Inr ss)"
proof (induction names arbitrary: out)
  case Nil
  then show ?case by simp
next
  case (Cons nm names)
  from Cons.prems have dead: "\<not> is_live key nm" and rest: "filter (is_live key) names = []"
    by (simp_all split: if_splits)
  show ?case
  proof (cases "map_of AVAILABLE_SCRAPERS nm")
    case None
    then show ?thesis
      by (simp add: Cons.IH [OF rest] skip_warning_def)
  next
    case (Some c)
    with dead have "requires_sela c \<and> \<not> truthy_str key"
      by (simp add: is_live_def)
    with Some show ?thesis
      by (simp add: Cons.IH [OF rest] skip_warning_def)
  qed
qed

lemma generate_nothing_collected:
  assumes "snd (get_all_trends scrapers outcome) = []"
  shows "generate_and_send_ideas scrapers outcome analyze send chat_id =
     ([LogInfo ''Starting trend collection...'']
        @ map Print (fst (get_all_trends scrapers outcome))
        @ [LogInfo ''Collected 0 trend items'', Bot (SendError chat_id NOTHING_COLLECTED)],
      send (SendError chat_id NOTHING_COLLECTED))"
proof -
  obtain printed trends where run: "get_all_trends scrapers outcome = (printed, trends)"
    by (cases "get_all_trends scrapers outcome")
  with assms have "trends = []" by simp
  with run show ?thesis
    by (simp add: generate_and_send_ideas_def digit_char_def)
qed

text \<open>
  C7. With no scraper enabled, \<open>get_all_trends\<close> prints the warning and returns the
  empty list; that is the case when the registry skips every identifier, which it does
  without raising. Whenever the collection is empty, \<open>_generate_and_send_ideas\<close> logs
  the count 0, sends the notice that nothing was collected through \<open>send_error\<close> and
  returns: the analyzer is never called.
\<close>

theorem empty_collection_short_circuits:
  "(scrapers = [] \<longrightarrow>
      get_all_trends scrapers outcome = ([''Warning: No scrapers enabled''], []))
   \<and> (filter (is_live key) (enabled_or_default enabled) = [] \<longrightarrow>
        TrendScraper_init key enabled cfgs env =
          (concat (map (skip_warning key) (enabled_or_default enabled)), Inr []))
   \<and> (snd (get_all_trends scrapers outcome) = [] \<longrightarrow>
        generate_and_send_ideas scrapers outcome analyze send chat_id =
          ([LogInfo ''Starting trend collection...'']
             @ map Print (fst (get_all_trends scrapers outcome))
             @ [LogInfo ''Collected 0 trend items'', Bot (SendError chat_id NOTHING_COLLECTED)],
           send (SendError chat_id NOTHING_COLLECTED))
        \<and> (\<forall>ts. Analyze ts \<notin> set (fst (generate_and_send_ideas scrapers outcome analyze send
               chat_id))))"
proof (intro conjI impI)
  assume "scrapers = []"
  then show "get_all_trends scrapers outcome = ([''Warning: No scrapers enabled''], [])"
    by (simp add: get_all_trends_def)
next
  assume "filter (is_live key) (enabled_or_default enabled) = []"
  from no_live_identifier [OF this, of "configs_or_empty cfgs" env "[]" "[]"]
  show "TrendScraper_init key enabled cfgs env =
          (concat (map (skip_warning key) (enabled_or_default enabled)), Inr [])"
    by (simp add: TrendScraper_init_def)
next
  assume empty: "snd (get_all_trends scrapers outcome) = []"
  from generate_nothing_collected [OF empty]
  show "generate_and_send_ideas scrapers outcome analyze send chat_id =
          ([LogInfo ''Starting trend collection...'']
             @ map Print (fst (get_all_trends scrapers outcome))
             @ [LogInfo ''Collected 0 trend items'', Bot (SendError chat_id NOTHING_COLLECTED)],
           send (SendError chat_id NOTHING_COLLECTED))" .
  from generate_nothing_collected [OF empty, of analyze send chat_id]
  show "\<forall>ts. Analyze ts \<notin> set (fst (generate_and_send_ideas scrapers outcome analyze send
               chat_id))"
    by auto
qed

theorem empty_collection_short_circuits_witness:
  "get_all_trends [] (\<lambda>i. ResultOther) = ([''Warning: No scrapers enabled''], [])
   \<and> TrendScraper_init None (Some [''twitter'', ''bogus'']) None None =
       ([warn_requires_sela ''twitter'', warn_unknown ''bogus''], Inr [])
   \<and> generate_and_send_ideas [] (\<lambda>i. ResultOther)
        (analyze_and_generate (\<lambda>digest. Inr None) (\<lambda>s. Inl ''no JSON'') (\<lambda>j. ''invalid''))
        (\<lambda>c. None) (1 :: int) =
       ([LogInfo ''Starting trend collection...'', Print ''Warning: No scrapers enabled'',
         LogInfo ''Collected 0 trend items'', Bot (SendError 1 NOTHING_COLLECTED)], None)"
proof -
  have live: "filter (is_live None) (enabled_or_default (Some [''twitter'', ''bogus''])) = []"
    by (simp add: enabled_or_default_def is_live_def AVAILABLE_SCRAPERS_def)
  have warnings: "concat (map (skip_warning None) (enabled_or_default (Some [''twitter'', ''bogus''])))
      = [warn_requires_sela ''twitter'', warn_unknown ''bogus'']"
    by (simp add: enabled_or_default_def skip_warning_def AVAILABLE_SCRAPERS_def)
  have none: "get_all_trends [] (\<lambda>i. ResultOther) = ([''Warning: No scrapers enabled''], [])"
    by (simp add: get_all_trends_def)
  then have empty: "snd (get_all_trends [] (\<lambda>i. ResultOther)) = []"
    by simp
  note inst = empty_collection_short_circuits
    [where scrapers = "[]" and outcome = "\<lambda>i. ResultOther" and key = None
       and enabled = "Some [''twitter'', ''bogus'']" and cfgs = None and env = None
       and analyze = "analyze_and_generate (\<lambda>digest. Inr None) (\<lambda>s. Inl ''no JSON'')
         (\<lambda>j. ''invalid'')" and send = "\<lambda>c. None"
       and chat_id = "1 :: int"]
  from inst live have a: "TrendScraper_init None (Some [''twitter'', ''bogus'']) None None =
       (concat (map (skip_warning None) (enabled_or_default (Some [''twitter'', ''bogus'']))),
        Inr [])"
    by blast
  from inst empty have b: "generate_and_send_ideas [] (\<lambda>i. ResultOther)
        (analyze_and_generate (\<lambda>digest. Inr None) (\<lambda>s. Inl ''no JSON'') (\<lambda>j. ''invalid''))
        (\<lambda>c. None) (1 :: int) =
          ([LogInfo ''Starting trend collection...'']
             @ map Print (fst (get_all_trends [] (\<lambda>i. ResultOther)))
             @ [LogInfo ''Collected 0 trend items'', Bot (SendError 1 NOTHING_COLLECTED)],
           None)"
    by blast
  from a warnings have a': "TrendScraper_init None (Some [''twitter'', ''bogus'']) None None =
       ([warn_requires_sela ''twitter'', warn_unknown ''bogus''], Inr [])"
    by simp
  from b none have b': "generate_and_send_ideas [] (\<lambda>i. ResultOther)
        (analyze_and_generate (\<lambda>digest. Inr None) (\<lambda>s. Inl ''no JSON'') (\<lambda>j. ''invalid''))
        (\<lambda>c. None) (1 :: int) =
       ([LogInfo ''Starting trend collection...'', Print ''Warning: No scrapers enabled'',
         LogInfo ''Collected 0 trend items'', Bot (SendError 1 NOTHING_COLLECTED)], None)"
    by simp
  show ?thesis by (rule conjI [OF none conjI [OF a' b']])
qed

end
